theory Spec2Isabelle
  imports Main
begin

section \<open>Go values used by the middleware\<close>

text \<open>
  A byte slice and a Go string are both lists of bytes; \<open>char\<close> is a byte.
\<close>

type_synonym bytes = string

text \<open>
  Go \<open>error\<close> values, by the shapes the middleware tells apart. The text carried by
  \<open>RequestError\<close>, \<open>ResponseError\<close> and \<open>SecurityRequirementsError\<close> is the result of
  their \<open>Error()\<close> method; the optional second component of the first two is the wrapped
  error their \<open>Unwrap()\<close> returns. \<open>ErrorString\<close> is what \<open>errors.New\<close> and a
  \<open>fmt.Errorf\<close> without \<open>%w\<close> build; \<open>WrapError p e\<close> is \<open>fmt.Errorf(p + "%w", e)\<close>.
  \<open>MultiError\<close> is \<open>openapi3.MultiError\<close>, a slice of errors. A nil \<open>error\<close> is \<open>None\<close>
  of \<open>go_error option\<close>.
\<close>

datatype go_error =
    ErrorString string
  | WrapError string go_error
  | RouteError string
  | RequestError string "go_error option"
  | ResponseError string "go_error option"
  | SecurityRequirementsError string
  | MultiError "go_error list"

text \<open>
  \<open>err.Error()\<close>. A \<open>RouteError\<close> prints its \<open>Reason\<close>; a \<open>MultiError\<close> prints every
  member followed by \<open>" | "\<close> (both as the kin-openapi library defines them).
\<close>

fun Error :: "go_error \<Rightarrow> string" where
  "Error (ErrorString s) = s"
| "Error (WrapError p e) = p @ Error e"
| "Error (RouteError reason) = reason"
| "Error (RequestError t _) = t"
| "Error (ResponseError t _) = t"
| "Error (SecurityRequirementsError t) = t"
| "Error (MultiError es) = concat (map (\<lambda>e. Error e @ '' | '') es)"

text \<open>
  \<open>errors.As(err, &me)\<close> with \<open>me\<close> of type \<open>openapi3.MultiError\<close>: the first error of
  the \<open>Unwrap\<close> chain of \<open>err\<close> whose dynamic type is \<open>MultiError\<close>, if there is one.
\<close>

fun errors_As_MultiError :: "go_error \<Rightarrow> go_error list option" where
  "errors_As_MultiError (MultiError es) = Some es"
| "errors_As_MultiError (WrapError p e) = errors_As_MultiError e"
| "errors_As_MultiError (RequestError t (Some e)) = errors_As_MultiError e"
| "errors_As_MultiError (ResponseError t (Some e)) = errors_As_MultiError e"
| "errors_As_MultiError (RequestError t None) = None"
| "errors_As_MultiError (ResponseError t None) = None"
| "errors_As_MultiError (ErrorString s) = None"
| "errors_As_MultiError (RouteError reason) = None"
| "errors_As_MultiError (SecurityRequirementsError t) = None"

text \<open>A Go panic: \<open>panic(err)\<close>, or the runtime's index-out-of-range.\<close>

datatype go_panic = PanicError go_error | IndexOutOfRange

text \<open>
  \<open>strings.Split(s, sep)\<close> for a separator of one byte: the pieces of \<open>s\<close> between
  the occurrences of \<open>sep\<close>.
\<close>

fun strings_Split :: "string \<Rightarrow> char \<Rightarrow> string list" where
  "strings_Split [] sep = [[]]"
| "strings_Split (x # xs) sep =
     (if x = sep then [] # strings_Split xs sep
      else (case strings_Split xs sep of
              [] \<Rightarrow> [[x]]
            | l # ls \<Rightarrow> (x # l) # ls))"

text \<open>\<open>xs[0]\<close>: the runtime panics when the slice is empty.\<close>

definition index0 :: "'a list \<Rightarrow> go_panic + 'a" where
  "index0 xs = (case xs of [] \<Rightarrow> Inl IndexOutOfRange | x # _ \<Rightarrow> Inr x)"

definition newline :: char where
  "newline = CHR 0x0A"

definition StatusInternalServerError :: int where
  "StatusInternalServerError = 500"

definition StatusBadRequest :: int where
  "StatusBadRequest = 400"

section \<open>The gin context and its response writer\<close>

text \<open>
  The state of gin's own response writer, the real sink: the status code and the headers
  the handler chose, the payload of every \<open>Write\<close> call made on it (oldest first), and
  what the transport answers to a \<open>Write\<close> (nil, or an error such as a closed connection).
\<close>

record response_writer =
  rw_status :: int
  rw_header :: "(string \<times> string) list"
  rw_writes :: "bytes list"
  rw_write_err :: "go_error option"

text \<open>
  \<open>c.Writer\<close> is a \<open>gin.ResponseWriter\<close>: gin's own writer, or a \<open>responseInterceptor\<close>,
  the struct that embeds a \<open>gin.ResponseWriter\<close> and owns a buffer \<open>body\<close>.
\<close>

datatype writer =
    GinWriter response_writer
  | responseInterceptor (ResponseWriter: writer) (body: bytes)

text \<open>
  The methods of \<open>gin.ResponseWriter\<close>. \<open>responseInterceptor\<close> defines \<open>Write\<close> only,
  which appends to the buffer and returns a nil error; every other method is promoted
  from the embedded writer.
\<close>

fun Write :: "bytes \<Rightarrow> writer \<Rightarrow> go_error option \<times> writer" where
  "Write b (GinWriter w) = (rw_write_err w, GinWriter (w\<lparr>rw_writes := rw_writes w @ [b]\<rparr>))"
| "Write b (responseInterceptor w buf) = (None, responseInterceptor w (buf @ b))"

fun WriteHeader :: "int \<Rightarrow> writer \<Rightarrow> writer" where
  "WriteHeader code (GinWriter w) = GinWriter (w\<lparr>rw_status := code\<rparr>)"
| "WriteHeader code (responseInterceptor w buf) = responseInterceptor (WriteHeader code w) buf"

definition header_Set :: "string \<Rightarrow> string \<Rightarrow> (string \<times> string) list \<Rightarrow> (string \<times> string) list" where
  "header_Set k v h = (k, v) # filter (\<lambda>kv. fst kv \<noteq> k) h"

fun Header_Set :: "string \<Rightarrow> string \<Rightarrow> writer \<Rightarrow> writer" where
  "Header_Set k v (GinWriter w) = GinWriter (w\<lparr>rw_header := header_Set k v (rw_header w)\<rparr>)"
| "Header_Set k v (responseInterceptor w buf) = responseInterceptor (Header_Set k v w) buf"

fun Status :: "writer \<Rightarrow> int" where
  "Status (GinWriter w) = rw_status w"
| "Status (responseInterceptor w buf) = Status w"

fun Header :: "writer \<Rightarrow> (string \<times> string) list" where
  "Header (GinWriter w) = rw_header w"
| "Header (responseInterceptor w buf) = Header w"

text \<open>What has been written to the real sink underneath a writer.\<close>

fun sink_writes :: "writer \<Rightarrow> bytes list" where
  "sink_writes (GinWriter w) = rw_writes w"
| "sink_writes (responseInterceptor w buf) = sink_writes w"

text \<open>
  What a handler (or an error callback) does with the context: it sets the status, sets
  a header, writes body bytes, or aborts the chain.
\<close>

datatype handler_op =
    OpWriteHeader int
  | OpHeaderSet string string
  | OpWrite bytes
  | OpAbort

record http_Request =
  Method :: string
  URL :: string

text \<open>
  \<open>gin.Context\<close>: the request, the writer, whether the chain is aborted, and the
  handlers still to run after the current middleware.
\<close>

record gin_context =
  Request :: http_Request
  Writer :: writer
  aborted :: bool
  handlers :: "handler_op list"

definition Abort :: "gin_context \<Rightarrow> gin_context" where
  "Abort c = c\<lparr>aborted := True\<rparr>"

fun apply_writer_op :: "handler_op \<Rightarrow> writer \<Rightarrow> writer" where
  "apply_writer_op (OpWriteHeader code) w = WriteHeader code w"
| "apply_writer_op (OpHeaderSet k v) w = Header_Set k v w"
| "apply_writer_op (OpWrite b) w = snd (Write b w)"
| "apply_writer_op OpAbort w = w"

fun run_writer_ops :: "handler_op list \<Rightarrow> writer \<Rightarrow> writer" where
  "run_writer_ops [] w = w"
| "run_writer_ops (x # xs) w = run_writer_ops xs (apply_writer_op x w)"

fun apply_op :: "handler_op \<Rightarrow> gin_context \<Rightarrow> gin_context" where
  "apply_op OpAbort c = Abort c"
| "apply_op x c = c\<lparr>Writer := apply_writer_op x (Writer c)\<rparr>"

fun run_ops :: "handler_op list \<Rightarrow> gin_context \<Rightarrow> gin_context" where
  "run_ops [] c = c"
| "run_ops (x # xs) c = run_ops xs (apply_op x c)"

text \<open>
  \<open>c.Next()\<close> runs the pending handlers, unless the chain has been aborted.
\<close>

definition Next :: "gin_context \<Rightarrow> gin_context" where
  "Next c = (if aborted c then c else run_ops (handlers c) (c\<lparr>handlers := []\<rparr>))"

section \<open>Options, validation inputs and the external collaborators\<close>

type_synonym route = string
type_synonym path_params = "(string \<times> string) list"

text \<open>A \<open>routers.Router\<close> is its \<open>FindRoute\<close> method.\<close>

type_synonym router = "http_Request \<Rightarrow> go_error + (route \<times> path_params)"

text \<open>
  \<open>openapi3filter.Options\<close> and \<open>openapi3filter.ContentParameterDecoder\<close> are passed on
  to the engine and never inspected; \<open>UserData\<close> is an opaque value too.
\<close>

type_synonym openapi3filter_Options = string
type_synonym ContentParameterDecoder = string

text \<open>
  The \<open>Options\<close> struct. The two callbacks may be nil. An \<open>ErrorHandler\<close> receives the
  context, the message and the status code, and acts on the context; a
  \<open>MultiErrorHandler\<close> returns an \<open>error\<close>, which may be nil.
\<close>

record Options =
  ErrorHandler :: "(gin_context \<Rightarrow> string \<Rightarrow> int \<Rightarrow> handler_op list) option"
  FilterOptions :: openapi3filter_Options
  ParamDecoder :: ContentParameterDecoder
  UserData :: string
  MultiErrorHandler :: "(go_error list \<Rightarrow> go_error option) option"
  SilenceServersWarning :: bool

record RequestValidationInput =
  rvi_Request :: http_Request
  rvi_PathParams :: path_params
  rvi_Route :: route
  rvi_Options :: "openapi3filter_Options option"
  rvi_ParamDecoder :: "ContentParameterDecoder option"

record ResponseValidationInput =
  rsp_RequestValidationInput :: RequestValidationInput
  rsp_Status :: int
  rsp_Header :: "(string \<times> string) list"
  rsp_Body :: bytes
  rsp_Options :: "openapi3filter_Options option"

text \<open>
  The \<open>context.Context\<close> handed to the engine: the value stored under \<open>GinContextKey\<close>
  (the gin context, as it is when the engine runs) and the one under \<open>UserDataKey\<close>,
  absent when there are no options.
\<close>

record request_context =
  GinContextKey :: gin_context
  UserDataKey :: "string option"

text \<open>The loaded OpenAPI document; \<open>Servers\<close> is a slice, which may be nil.\<close>

record openapi3_T =
  Servers :: "string list option"
  Paths :: "string list"

text \<open>
  What the middleware calls and does not define: the file system, the loader, the
  router constructor, the validation engine, the JSON encoder behind \<open>gin.H\<close>, and the
  two helpers of the request path, \<open>getRequestValidationInput\<close> and
  \<open>handleValidationError\<close>, whose bodies are not among the sources at hand.
\<close>

record env =
  ReadFile :: "string \<Rightarrow> go_error + bytes"
  LoadFromData :: "bytes \<Rightarrow> go_error + openapi3_T"
  NewRouter :: "openapi3_T \<Rightarrow> go_error + router"
  ValidateRequest :: "request_context \<Rightarrow> RequestValidationInput \<Rightarrow> go_error option"
  ValidateResponse :: "request_context \<Rightarrow> ResponseValidationInput \<Rightarrow> go_error option"
  json_Marshal :: "(string \<times> string) list \<Rightarrow> bytes"
  getRequestValidationInput ::
    "http_Request \<Rightarrow> router \<Rightarrow> Options option \<Rightarrow> go_error + RequestValidationInput"
  handleValidationError ::
    "gin_context \<Rightarrow> go_error \<Rightarrow> Options option \<Rightarrow> int \<Rightarrow> gin_context"

text \<open>
  \<open>c.AbortWithStatusJSON(code, obj)\<close>: gin aborts the chain, sets the status and writes
  the encoded object, the last two through \<open>c.Writer\<close>.
\<close>

definition AbortWithStatusJSON ::
  "env \<Rightarrow> int \<Rightarrow> (string \<times> string) list \<Rightarrow> gin_context \<Rightarrow> gin_context" where
  "AbortWithStatusJSON E code obj c =
     (let c1 = Abort c;
          w1 = WriteHeader code (Writer c1);
          w2 = snd (Write (json_Marshal E obj) w1)
      in c1\<lparr>Writer := w2\<rparr>)"

section \<open>utils.go\<close>

definition defaultMultiErrorHandler :: "go_error list \<Rightarrow> go_error option" where
  "defaultMultiErrorHandler me =
     Some (ErrorString (''multiple errors encountered: '' @ Error (MultiError me)))"

definition getMultiErrorHandlerFromOptions ::
  "Options option \<Rightarrow> go_error list \<Rightarrow> go_error option" where
  "getMultiErrorHandlerFromOptions options =
     (case options of
        None \<Rightarrow> defaultMultiErrorHandler
      | Some opts \<Rightarrow>
          (case MultiErrorHandler opts of
             None \<Rightarrow> defaultMultiErrorHandler
           | Some h \<Rightarrow> h))"

text \<open>\<open>getRequestContext\<close>, and the same lines of \<open>ValidateResponseFromContext\<close>.\<close>

definition getRequestContext :: "gin_context \<Rightarrow> Options option \<Rightarrow> request_context" where
  "getRequestContext c options =
     (let requestContext = \<lparr>GinContextKey = c, UserDataKey = None\<rparr>
      in case options of
           None \<Rightarrow> requestContext
         | Some opts \<Rightarrow> requestContext\<lparr>UserDataKey := Some (UserData opts)\<rparr>)"

section \<open>oapi\_validate\_response.go\<close>

text \<open>
  The classification of an engine error, lines 154 to 173 of
  \<open>ValidateResponseFromContext\<close>: the aggregate check, then the type switch.
\<close>

definition classifyResponseError :: "Options option \<Rightarrow> go_error \<Rightarrow> go_panic + go_error option" where
  "classifyResponseError options err =
     (case errors_As_MultiError err of
        Some me \<Rightarrow> Inr (getMultiErrorHandlerFromOptions options me)
      | None \<Rightarrow>
          (case err of
             ResponseError t cause \<Rightarrow>
               (case index0 (strings_Split (Error err) newline) of
                  Inl p \<Rightarrow> Inl p
                | Inr line \<Rightarrow>
                    Inr (Some (ErrorString (''error in openapi3filter.ResponseError: '' @ line))))
           | SecurityRequirementsError t \<Rightarrow>
               Inr (Some (ErrorString
                 (''error in openapi3filter.SecurityRequirementsError: '' @ Error err)))
           | _ \<Rightarrow> Inr (Some (WrapError ''error validating response: '' err))))"

text \<open>The validation input of the request, lines 110 to 114 and 120 to 122.\<close>

definition reqValidationInput ::
  "http_Request \<Rightarrow> path_params \<Rightarrow> route \<Rightarrow> Options option \<Rightarrow> RequestValidationInput" where
  "reqValidationInput req pathParams rt options =
     (let inp = \<lparr>rvi_Request = req, rvi_PathParams = pathParams, rvi_Route = rt,
                 rvi_Options = None, rvi_ParamDecoder = None\<rparr>
      in case options of
           None \<Rightarrow> inp
         | Some opts \<Rightarrow>
             inp\<lparr>rvi_Options := Some (FilterOptions opts),
                 rvi_ParamDecoder := Some (ParamDecoder opts)\<rparr>)"

text \<open>The validation input of the response, lines 134 to 146.\<close>

definition rspValidationInput ::
  "RequestValidationInput \<Rightarrow> gin_context \<Rightarrow> bytes \<Rightarrow> Options option \<Rightarrow> ResponseValidationInput" where
  "rspValidationInput reqInput c buf options =
     (let inp = \<lparr>rsp_RequestValidationInput = reqInput,
                 rsp_Status = Status (Writer c),
                 rsp_Header = Header (Writer c),
                 rsp_Body = buf,
                 rsp_Options = None\<rparr>
      in case options of
           None \<Rightarrow> inp
         | Some opts \<Rightarrow> inp\<lparr>rsp_Options := Some (FilterOptions opts)\<rparr>)"

text \<open>
  \<open>ValidateResponseFromContext\<close> returns the error (nil is \<open>None\<close>) and leaves the
  context changed; a panic is \<open>Inl\<close>. \<open>bw\<close> is the interceptor installed as \<open>c.Writer\<close>:
  after the handlers have run it is read back from the context.
\<close>

definition ValidateResponseFromContext ::
  "env \<Rightarrow> gin_context \<Rightarrow> router \<Rightarrow> Options option \<Rightarrow> go_panic + (go_error option \<times> gin_context)" where
  "ValidateResponseFromContext E c rtr options =
     (let req = Request c in
      case rtr req of
        Inl err \<Rightarrow>
          (case err of
             RouteError reason \<Rightarrow> Inr (Some (ErrorString reason), c)
           | _ \<Rightarrow> Inr (Some (ErrorString (''error validating route: '' @ Error err)), c))
      | Inr (rt, pathParams) \<Rightarrow>
          (let reqInput = reqValidationInput req pathParams rt options;
               c1 = c\<lparr>Writer := responseInterceptor (Writer c) []\<rparr>;
               c2 = Next c1;
               bw = Writer c2;
               requestContext = getRequestContext c2 options;
               rspInput = rspValidationInput reqInput c2 (body bw) options
           in case ValidateResponse E requestContext rspInput of
                Some err \<Rightarrow>
                  (let c3 = c2\<lparr>Writer := ResponseWriter bw\<rparr>
                   in case classifyResponseError options err of
                        Inl p \<Rightarrow> Inl p
                      | Inr r \<Rightarrow> Inr (r, c3))
              | None \<Rightarrow>
                  (case Write (body bw) (ResponseWriter bw) of
                     (werr, w') \<Rightarrow>
                       (let c3 = c2\<lparr>Writer := responseInterceptor w' (body bw)\<rparr>
                        in case werr of
                             Some e \<Rightarrow> Inr (Some (WrapError ''error writing response body: '' e), c3)
                           | None \<Rightarrow> Inr (None, c3)))))"

text \<open>The function literal that \<open>OapiResponseValidatorWithOptions\<close> returns, lines 67 to 78.\<close>

definition responseValidatorFunc ::
  "env \<Rightarrow> router \<Rightarrow> Options option \<Rightarrow> gin_context \<Rightarrow> go_panic + gin_context" where
  "responseValidatorFunc E rtr options c =
     (case ValidateResponseFromContext E c rtr options of
        Inl p \<Rightarrow> Inl p
      | Inr (None, c') \<Rightarrow> Inr c'
      | Inr (Some err, c') \<Rightarrow>
          (case options of
             None \<Rightarrow>
               Inr (AbortWithStatusJSON E StatusInternalServerError [(''error'', Error err)] c')
           | Some opts \<Rightarrow>
               (case ErrorHandler opts of
                  None \<Rightarrow>
                    Inr (AbortWithStatusJSON E StatusInternalServerError [(''error'', Error err)] c')
                | Some eh \<Rightarrow>
                    Inr (Abort (run_ops (eh c' (Error err) StatusInternalServerError) c')))))"

definition responseServersWarning :: string where
  "responseServersWarning =
     ''WARN: OapiResponseValidatorWithOptions called with an OpenAPI spec that has `Servers` set. This may lead to an HTTP 400 with `no matching operation was found` when sending a valid request, as the validator performs `Host` header validation. If you'' @ [CHR 0x27] @ ''re expecting `Host` header validation, you can silence this warning by setting `Options.SilenceServersWarning = true`. See https://github.com/deepmap/oapi-codegen/issues/882 for more information.''"

text \<open>
  A constructor returns the lines it logged and then either panics or yields the
  middleware.
\<close>

type_synonym HandlerFunc = "gin_context \<Rightarrow> go_panic + gin_context"

definition OapiResponseValidatorWithOptions ::
  "env \<Rightarrow> openapi3_T \<Rightarrow> Options option \<Rightarrow> string list \<times> (go_panic + HandlerFunc)" where
  "OapiResponseValidatorWithOptions E swagger options =
     (let logged =
            (if Servers swagger \<noteq> None \<and>
                (case options of None \<Rightarrow> True | Some opts \<Rightarrow> \<not> SilenceServersWarning opts)
             then [responseServersWarning] else [])
      in case NewRouter E swagger of
           Inl err \<Rightarrow> (logged, Inl (PanicError err))
         | Inr rtr \<Rightarrow> (logged, Inr (responseValidatorFunc E rtr options)))"

definition OapiResponseValidator :: "env \<Rightarrow> openapi3_T \<Rightarrow> string list \<times> (go_panic + HandlerFunc)" where
  "OapiResponseValidator E swagger = OapiResponseValidatorWithOptions E swagger None"

section \<open>The request path (oapi\_validate.go)\<close>

text \<open>
  The classification of an engine error in \<open>ValidateRequestFromContext\<close>, lines 87 to 106.
\<close>

definition classifyRequestError :: "Options option \<Rightarrow> go_error \<Rightarrow> go_panic + go_error option" where
  "classifyRequestError options err =
     (case errors_As_MultiError err of
        Some me \<Rightarrow> Inr (getMultiErrorHandlerFromOptions options me)
      | None \<Rightarrow>
          (case err of
             RequestError t cause \<Rightarrow>
               (case index0 (strings_Split (Error err) newline) of
                  Inl p \<Rightarrow> Inl p
                | Inr line \<Rightarrow>
                    Inr (Some (ErrorString (''error in openapi3filter.RequestError: '' @ line))))
           | SecurityRequirementsError t \<Rightarrow>
               Inr (Some (ErrorString
                 (''error in openapi3filter.SecurityRequirementsError: '' @ Error err)))
           | _ \<Rightarrow> Inr (Some (WrapError ''error validating request: '' err))))"

definition ValidateRequestFromContext ::
  "env \<Rightarrow> gin_context \<Rightarrow> router \<Rightarrow> Options option \<Rightarrow> go_panic + (go_error option \<times> gin_context)" where
  "ValidateRequestFromContext E c rtr options =
     (case getRequestValidationInput E (Request c) rtr options of
        Inl err \<Rightarrow>
          Inr (Some (WrapError ''error getting request validation input from route: '' err), c)
      | Inr validationInput \<Rightarrow>
          (let requestContext = getRequestContext c options
           in case ValidateRequest E requestContext validationInput of
                Some err \<Rightarrow>
                  (case classifyRequestError options err of
                     Inl p \<Rightarrow> Inl p
                   | Inr r \<Rightarrow> Inr (r, c))
              | None \<Rightarrow> Inr (None, c)))"

text \<open>The function literal that \<open>OapiRequestValidatorWithOptions\<close> returns, lines 64 to 70.\<close>

definition requestValidatorFunc ::
  "env \<Rightarrow> router \<Rightarrow> Options option \<Rightarrow> gin_context \<Rightarrow> go_panic + gin_context" where
  "requestValidatorFunc E rtr options c =
     (case ValidateRequestFromContext E c rtr options of
        Inl p \<Rightarrow> Inl p
      | Inr (None, c') \<Rightarrow> Inr (Next c')
      | Inr (Some err, c') \<Rightarrow>
          Inr (Next (handleValidationError E c' err options StatusBadRequest)))"

definition requestServersWarning :: string where
  "requestServersWarning =
     ''WARN: OapiRequestValidatorWithOptions called with an OpenAPI spec that has `Servers` set. This may lead to an HTTP 400 with `no matching operation was found` when sending a valid request, as the validator performs `Host` header validation. If you'' @ [CHR 0x27] @ ''re expecting `Host` header validation, you can silence this warning by setting `Options.SilenceServersWarning = true`. See https://github.com/deepmap/oapi-codegen/issues/882 for more information.''"

definition OapiRequestValidatorWithOptions ::
  "env \<Rightarrow> openapi3_T \<Rightarrow> Options option \<Rightarrow> string list \<times> (go_panic + HandlerFunc)" where
  "OapiRequestValidatorWithOptions E swagger options =
     (let logged =
            (if Servers swagger \<noteq> None \<and>
                (case options of None \<Rightarrow> True | Some opts \<Rightarrow> \<not> SilenceServersWarning opts)
             then [requestServersWarning] else [])
      in case NewRouter E swagger of
           Inl err \<Rightarrow> (logged, Inl (PanicError err))
         | Inr rtr \<Rightarrow> (logged, Inr (requestValidatorFunc E rtr options)))"

definition OapiRequestValidator :: "env \<Rightarrow> openapi3_T \<Rightarrow> string list \<times> (go_panic + HandlerFunc)" where
  "OapiRequestValidator E swagger = OapiRequestValidatorWithOptions E swagger None"

text \<open>
  \<open>OapiResponseValidatorFromYamlFile\<close> (oapi\_validate\_response.go, lines 36 to 48) returns
  a middleware and an error; the lines logged and a panic of the constructor it calls
  are its own.
\<close>

definition OapiResponseValidatorFromYamlFile ::
  "env \<Rightarrow> string \<Rightarrow> string list \<times> (go_panic + (go_error + HandlerFunc))" where
  "OapiResponseValidatorFromYamlFile E path =
     (case ReadFile E path of
        Inl err \<Rightarrow>
          ([], Inr (Inl (ErrorString (''error reading '' @ path @ '': '' @ Error err))))
      | Inr data \<Rightarrow>
          (case LoadFromData E data of
             Inl err \<Rightarrow>
               ([], Inr (Inl (ErrorString
                  (''error parsing '' @ path @ '' as Swagger YAML: '' @ Error err))))
           | Inr swagger \<Rightarrow>
               (case OapiRequestValidator E swagger of
                  (logged, Inl p) \<Rightarrow> (logged, Inl p)
                | (logged, Inr h) \<Rightarrow> (logged, Inr (Inr h)))))"

section \<open>Notions used to state the properties\<close>

text \<open>
  The context at the moment the engine is called: the interceptor has been installed
  with an empty buffer and the pending handlers have run.
\<close>

definition afterHandlers :: "gin_context \<Rightarrow> gin_context" where
  "afterHandlers c = Next (c\<lparr>Writer := responseInterceptor (Writer c) []\<rparr>)"

text \<open>The buffer of the interceptor at that moment: the captured response body.\<close>

definition capturedBody :: "gin_context \<Rightarrow> bytes" where
  "capturedBody c = body (Writer (afterHandlers c))"

text \<open>What the engine is given, and what it answers, for a request routed to \<open>rt\<close>.\<close>

definition capturedInput ::
  "gin_context \<Rightarrow> route \<Rightarrow> path_params \<Rightarrow> Options option \<Rightarrow> ResponseValidationInput" where
  "capturedInput c rt pathParams options =
     rspValidationInput (reqValidationInput (Request c) pathParams rt options)
       (afterHandlers c) (capturedBody c) options"

definition engineVerdict ::
  "env \<Rightarrow> gin_context \<Rightarrow> route \<Rightarrow> path_params \<Rightarrow> Options option \<Rightarrow> go_error option" where
  "engineVerdict E c rt pathParams options =
     ValidateResponse E (getRequestContext (afterHandlers c) options)
       (capturedInput c rt pathParams options)"

text \<open>The context once the original writer is back in place (line 152).\<close>

definition restoredContext :: "gin_context \<Rightarrow> gin_context" where
  "restoredContext c = (afterHandlers c)\<lparr>Writer := ResponseWriter (Writer (afterHandlers c))\<rparr>"

text \<open>The bytes a list of operations passes to \<open>Write\<close>, in order.\<close>

fun written_bytes :: "handler_op list \<Rightarrow> bytes" where
  "written_bytes [] = []"
| "written_bytes (OpWrite b # xs) = b @ written_bytes xs"
| "written_bytes (x # xs) = written_bytes xs"

fun is_OpWrite :: "handler_op \<Rightarrow> bool" where
  "is_OpWrite (OpWrite b) = True"
| "is_OpWrite x = False"

text \<open>
  The status and the headers a list of operations leaves, from the ones it starts with.
\<close>

fun chosen_status :: "handler_op list \<Rightarrow> int \<Rightarrow> int" where
  "chosen_status [] s = s"
| "chosen_status (OpWriteHeader code # xs) s = chosen_status xs code"
| "chosen_status (x # xs) s = chosen_status xs s"

fun chosen_header :: "handler_op list \<Rightarrow> (string \<times> string) list \<Rightarrow> (string \<times> string) list" where
  "chosen_header [] h = h"
| "chosen_header (OpHeaderSet k v # xs) h = chosen_header xs (header_Set k v h)"
| "chosen_header (x # xs) h = chosen_header xs h"

text \<open>The \<open>ErrorHandler\<close> and the \<open>MultiErrorHandler\<close> that are configured, if any.\<close>

definition customErrorHandler ::
  "Options option \<Rightarrow> (gin_context \<Rightarrow> string \<Rightarrow> int \<Rightarrow> handler_op list) option" where
  "customErrorHandler options = (case options of None \<Rightarrow> None | Some opts \<Rightarrow> ErrorHandler opts)"

definition customMultiErrorHandler ::
  "Options option \<Rightarrow> (go_error list \<Rightarrow> go_error option) option" where
  "customMultiErrorHandler options =
     (case options of None \<Rightarrow> None | Some opts \<Rightarrow> MultiErrorHandler opts)"

definition silenced :: "Options option \<Rightarrow> bool" where
  "silenced options = (case options of None \<Rightarrow> False | Some opts \<Rightarrow> SilenceServersWarning opts)"

text \<open>The first line of a text: what precedes its first newline.\<close>

definition first_line :: "string \<Rightarrow> string" where
  "first_line s = takeWhile (\<lambda>x. x \<noteq> newline) s"

section \<open>A small concrete environment\<close>

text \<open>
  One operation, \<open>GET /resource\<close>, whose responses must have status 200 and the body
  \<open>id=7\<close>; the engine answers the other bodies with the error shapes it can produce.
\<close>

definition demo_router :: router where
  "demo_router req =
     (if Method req = ''GET'' \<and> URL req = ''/resource'' then Inr (''getResource'', [])
      else if URL req = ''/resource'' then Inl (RouteError ''method not allowed'')
      else if URL req = ''/broken'' then Inl (ErrorString ''boom'')
      else Inl (RouteError ''no matching operation was found''))"

definition demo_schema_error :: go_error where
  "demo_schema_error =
     ResponseError (''response body does not match schema'' @ [newline] @ ''Schema: integer'' @ [newline] @ ''Value: x'') None"

definition demo_aggregate :: go_error where
  "demo_aggregate = MultiError [ErrorString ''id must be an integer'', ErrorString ''name is missing'']"

definition demo_ValidateResponse :: "request_context \<Rightarrow> ResponseValidationInput \<Rightarrow> go_error option" where
  "demo_ValidateResponse rc inp =
     (if rsp_Status inp \<noteq> 200 then Some (ResponseError ''status is not supported'' None)
      else if rsp_Body inp = ''id=7'' then None
      else if rsp_Body inp = ''id=x'' then Some demo_schema_error
      else if rsp_Body inp = ''many'' then Some (ResponseError ''response body does not match schema'' (Some demo_aggregate))
      else if rsp_Body inp = ''secret'' then Some (SecurityRequirementsError ''security requirements failed'')
      else Some (ErrorString ''unexpected''))"

definition demo_ValidateRequest :: "request_context \<Rightarrow> RequestValidationInput \<Rightarrow> go_error option" where
  "demo_ValidateRequest rc inp =
     (if rvi_Route inp = ''GET'' then None
      else if rvi_Route inp = ''lines'' then
        Some (RequestError (''request body has an error'' @ [newline] @ ''Schema: integer'') None)
      else if rvi_Route inp = ''many'' then Some (WrapError ''validation: '' demo_aggregate)
      else Some (ResponseError ''not a request error'' None))"

definition demo_json :: "(string \<times> string) list \<Rightarrow> bytes" where
  "demo_json obj = ''{'' @ concat (map (\<lambda>kv. fst kv @ '':'' @ snd kv @ '';'') obj) @ ''}''"

definition demo_getRequestValidationInput ::
  "http_Request \<Rightarrow> router \<Rightarrow> Options option \<Rightarrow> go_error + RequestValidationInput" where
  "demo_getRequestValidationInput req rtr options =
     (if URL req = ''/resource'' then
        Inr \<lparr>rvi_Request = req, rvi_PathParams = [], rvi_Route = Method req,
             rvi_Options = None, rvi_ParamDecoder = None\<rparr>
      else Inl (ErrorString ''no matching operation was found''))"

definition demo_handleValidationError ::
  "gin_context \<Rightarrow> go_error \<Rightarrow> Options option \<Rightarrow> int \<Rightarrow> gin_context" where
  "demo_handleValidationError c err options code = Abort c"

definition demo_swagger :: openapi3_T where
  "demo_swagger = \<lparr>Servers = None, Paths = [''/resource'']\<rparr>"

text \<open>A document that declares a server list with no entry: the slice is empty, not nil.\<close>

definition empty_servers_swagger :: openapi3_T where
  "empty_servers_swagger = \<lparr>Servers = Some [], Paths = [''/resource'']\<rparr>"

definition demo_env :: env where
  "demo_env =
     \<lparr>ReadFile = (\<lambda>path. if path = ''api.yaml'' then Inr ''openapi'' else Inl (ErrorString ''no such file'')),
      LoadFromData = (\<lambda>data. if data = ''openapi'' then Inr demo_swagger else Inl (ErrorString ''bad document'')),
      NewRouter = (\<lambda>swagger. Inr demo_router),
      ValidateRequest = demo_ValidateRequest,
      ValidateResponse = demo_ValidateResponse,
      json_Marshal = demo_json,
      getRequestValidationInput = demo_getRequestValidationInput,
      handleValidationError = demo_handleValidationError\<rparr>"

definition demo_writer :: response_writer where
  "demo_writer = \<lparr>rw_status = 200, rw_header = [], rw_writes = [], rw_write_err = None\<rparr>"

text \<open>A \<open>GET /resource\<close> whose handler runs the given operations.\<close>

definition demo_context :: "handler_op list \<Rightarrow> gin_context" where
  "demo_context ops =
     \<lparr>Request = \<lparr>Method = ''GET'', URL = ''/resource''\<rparr>,
      Writer = GinWriter demo_writer, aborted = False, handlers = ops\<rparr>"

definition demo_request :: "string \<Rightarrow> string \<Rightarrow> handler_op list \<Rightarrow> gin_context" where
  "demo_request m u ops = (demo_context ops)\<lparr>Request := \<lparr>Method = m, URL = u\<rparr>\<rparr>"

text \<open>
  Options whose \<open>ErrorHandler\<close> writes the message as text and does not abort (as the
  one of the repository's test does), and options whose \<open>MultiErrorHandler\<close> returns nil.
\<close>

definition demo_options :: Options where
  "demo_options =
     \<lparr>ErrorHandler = Some (\<lambda>c message code. [OpWriteHeader code, OpWrite (''test: '' @ message)]),
      FilterOptions = ''IncludeResponseStatus'', ParamDecoder = ''default'', UserData = ''hi!'',
      MultiErrorHandler = None, SilenceServersWarning = False\<rparr>"

definition lenient_options :: Options where
  "lenient_options =
     \<lparr>ErrorHandler = None,
      FilterOptions = ''MultiError'', ParamDecoder = ''default'', UserData = ''hi!'',
      MultiErrorHandler = Some (\<lambda>me. None), SilenceServersWarning = False\<rparr>"

section \<open>Shared lemmas\<close>

lemma strings_Split_not_Nil: "strings_Split s sep \<noteq> []"
  by (induction s) (auto split: list.splits)

lemma hd_strings_Split: "hd (strings_Split s sep) = takeWhile (\<lambda>x. x \<noteq> sep) s"
  by (induction s) (auto split: list.splits simp: strings_Split_not_Nil)

lemma index0_strings_Split:
  "index0 (strings_Split s sep) = Inr (takeWhile (\<lambda>x. x \<noteq> sep) s)"
  using strings_Split_not_Nil [of s sep] hd_strings_Split [of s sep]
  by (cases "strings_Split s sep") (simp_all add: index0_def)

lemma index0_first_line: "index0 (strings_Split s newline) = Inr (first_line s)"
  by (simp add: index0_strings_Split first_line_def)

lemma first_line_no_newline: "newline \<notin> set (first_line s)"
  unfolding first_line_def by (induction s) auto

lemma first_line_prefix: "s = first_line s @ dropWhile (\<lambda>x. x \<noteq> newline) s"
  unfolding first_line_def by simp

lemma ValidateResponseFromContext_no_route:
  "rtr (Request c) = Inl err \<Longrightarrow>
   ValidateResponseFromContext E c rtr options =
     Inr (Some (ErrorString (case err of RouteError reason \<Rightarrow> reason
                             | _ \<Rightarrow> ''error validating route: '' @ Error err)), c)"
  unfolding ValidateResponseFromContext_def by (cases err) simp_all

lemma ValidateResponseFromContext_reject:
  "rtr (Request c) = Inr (rt, pp) \<Longrightarrow> engineVerdict E c rt pp options = Some err \<Longrightarrow>
   ValidateResponseFromContext E c rtr options =
     (case classifyResponseError options err of
        Inl p \<Rightarrow> Inl p
      | Inr r \<Rightarrow> Inr (r, restoredContext c))"
  unfolding ValidateResponseFromContext_def engineVerdict_def capturedInput_def
    capturedBody_def restoredContext_def afterHandlers_def
  by (simp add: Let_def)

lemma ValidateRequestFromContext_reject:
  "getRequestValidationInput E (Request c) rtr options = Inr vi \<Longrightarrow>
   ValidateRequest E (getRequestContext c options) vi = Some err \<Longrightarrow>
   ValidateRequestFromContext E c rtr options =
     (case classifyRequestError options err of
        Inl p \<Rightarrow> Inl p
      | Inr r \<Rightarrow> Inr (r, c))"
  unfolding ValidateRequestFromContext_def by (simp add: Let_def)

lemma classifyResponseError_aggregate:
  "errors_As_MultiError err = Some me \<Longrightarrow>
   classifyResponseError options err = Inr (getMultiErrorHandlerFromOptions options me)"
  by (simp add: classifyResponseError_def)

lemma classifyRequestError_aggregate:
  "errors_As_MultiError err = Some me \<Longrightarrow>
   classifyRequestError options err = Inr (getMultiErrorHandlerFromOptions options me)"
  by (simp add: classifyRequestError_def)

lemma classifyResponseError_ResponseError:
  "errors_As_MultiError (ResponseError t cause) = None \<Longrightarrow>
   classifyResponseError options (ResponseError t cause) =
     Inr (Some (ErrorString (''error in openapi3filter.ResponseError: '' @ first_line t)))"
  by (simp add: classifyResponseError_def index0_first_line)

lemma classifyRequestError_RequestError:
  "errors_As_MultiError (RequestError t cause) = None \<Longrightarrow>
   classifyRequestError options (RequestError t cause) =
     Inr (Some (ErrorString (''error in openapi3filter.RequestError: '' @ first_line t)))"
  by (simp add: classifyRequestError_def index0_first_line)

lemma classifyResponseError_default:
  "errors_As_MultiError err = None \<Longrightarrow> \<forall>t cause. err \<noteq> ResponseError t cause \<Longrightarrow>
   \<forall>t. err \<noteq> SecurityRequirementsError t \<Longrightarrow>
   classifyResponseError options err = Inr (Some (WrapError ''error validating response: '' err))"
  by (cases err) (simp_all add: classifyResponseError_def)

lemma classifyRequestError_default:
  "errors_As_MultiError err = None \<Longrightarrow> \<forall>t cause. err \<noteq> RequestError t cause \<Longrightarrow>
   \<forall>t. err \<noteq> SecurityRequirementsError t \<Longrightarrow>
   classifyRequestError options err = Inr (Some (WrapError ''error validating request: '' err))"
  by (cases err) (simp_all add: classifyRequestError_def)

lemma classifyResponseError_Some:
  "errors_As_MultiError err = None \<Longrightarrow> \<exists>e. classifyResponseError options err = Inr (Some e)"
  by (cases err) (simp_all add: classifyResponseError_def index0_first_line)

lemma classifyRequestError_Some:
  "errors_As_MultiError err = None \<Longrightarrow> \<exists>e. classifyRequestError options err = Inr (Some e)"
  by (cases err) (simp_all add: classifyRequestError_def index0_first_line)

lemma getMultiErrorHandlerFromOptions_eq:
  "getMultiErrorHandlerFromOptions options =
     (case customMultiErrorHandler options of
        None \<Rightarrow> defaultMultiErrorHandler
      | Some h \<Rightarrow> h)"
  by (simp add: getMultiErrorHandlerFromOptions_def customMultiErrorHandler_def
      split: option.splits)

lemmas demo_simps =
  demo_env_def demo_router_def demo_ValidateResponse_def demo_ValidateRequest_def
  demo_json_def demo_getRequestValidationInput_def demo_handleValidationError_def
  demo_swagger_def demo_writer_def demo_context_def demo_request_def demo_options_def
  lenient_options_def demo_schema_error_def demo_aggregate_def
  engineVerdict_def capturedInput_def capturedBody_def afterHandlers_def restoredContext_def
  rspValidationInput_def reqValidationInput_def getRequestContext_def Next_def Abort_def
  newline_def first_line_def customErrorHandler_def customMultiErrorHandler_def silenced_def
  StatusInternalServerError_def StatusBadRequest_def Let_def

section \<open>The error classifier\<close>

text \<open>
  C7. The engine returns a structured validation error that is not an aggregate
  (\<open>errors.As\<close> finds no \<open>MultiError\<close>): a \<open>ResponseError\<close> on the response path, a
  \<open>RequestError\<close> on the request path. The error returned is the fixed prefix naming
  the error type followed by the first line of the engine's text, and nothing else:
  that line holds no newline, and the engine's text starts with it.
\<close>

theorem structured_error_first_line:
  assumes "errors_As_MultiError err = None"
  shows "(rtr (Request c) = Inr (rt, pp) \<and> engineVerdict E c rt pp options = Some err \<and>
          err = ResponseError t cause \<longrightarrow>
            ValidateResponseFromContext E c rtr options =
              Inr (Some (ErrorString (''error in openapi3filter.ResponseError: '' @ first_line (Error err))),
                   restoredContext c))
       \<and> (getRequestValidationInput E (Request c) rtr options = Inr vi \<and>
          ValidateRequest E (getRequestContext c options) vi = Some err \<and>
          err = RequestError t cause \<longrightarrow>
            ValidateRequestFromContext E c rtr options =
              Inr (Some (ErrorString (''error in openapi3filter.RequestError: '' @ first_line (Error err))), c))
       \<and> newline \<notin> set (first_line (Error err))
       \<and> Error err = first_line (Error err) @ dropWhile (\<lambda>x. x \<noteq> newline) (Error err)"
proof (intro conjI impI)
  assume h: "rtr (Request c) = Inr (rt, pp) \<and> engineVerdict E c rt pp options = Some err \<and>
          err = ResponseError t cause"
  with assms have "classifyResponseError options err =
      Inr (Some (ErrorString (''error in openapi3filter.ResponseError: '' @ first_line (Error err))))"
    by (simp add: classifyResponseError_ResponseError)
  with h show "ValidateResponseFromContext E c rtr options =
              Inr (Some (ErrorString (''error in openapi3filter.ResponseError: '' @ first_line (Error err))),
                   restoredContext c)"
    using ValidateResponseFromContext_reject [of rtr c rt pp E options err] by simp
next
  assume h: "getRequestValidationInput E (Request c) rtr options = Inr vi \<and>
          ValidateRequest E (getRequestContext c options) vi = Some err \<and>
          err = RequestError t cause"
  with assms have "classifyRequestError options err =
      Inr (Some (ErrorString (''error in openapi3filter.RequestError: '' @ first_line (Error err))))"
    by (simp add: classifyRequestError_RequestError)
  with h show "ValidateRequestFromContext E c rtr options =
              Inr (Some (ErrorString (''error in openapi3filter.RequestError: '' @ first_line (Error err))), c)"
    using ValidateRequestFromContext_reject [of E c rtr options vi err] by simp
next
  show "newline \<notin> set (first_line (Error err))" by (rule first_line_no_newline)
next
  show "Error err = first_line (Error err) @ dropWhile (\<lambda>x. x \<noteq> newline) (Error err)"
    by (rule first_line_prefix)
qed

theorem structured_error_first_line_witness:
  "ValidateResponseFromContext demo_env (demo_context [OpWriteHeader 200, OpWrite ''id=x''])
       demo_router None =
     Inr (Some (ErrorString ''error in openapi3filter.ResponseError: response body does not match schema''),
          demo_context [])
   \<and> ValidateRequestFromContext demo_env (demo_request ''lines'' ''/resource'' []) demo_router None =
     Inr (Some (ErrorString ''error in openapi3filter.RequestError: request body has an error''),
          demo_request ''lines'' ''/resource'' [])"
proof -
  have a: "errors_As_MultiError demo_schema_error = None"
    by (simp add: demo_schema_error_def)
  have b: "demo_router (Request (demo_context [OpWriteHeader 200, OpWrite ''id=x''])) = Inr (''getResource'', [])"
    by (simp add: demo_simps)
  have c: "engineVerdict demo_env (demo_context [OpWriteHeader 200, OpWrite ''id=x'']) ''getResource'' [] None
             = Some demo_schema_error"
    by (simp add: demo_simps)
  have d: "demo_schema_error = ResponseError (''response body does not match schema'' @ [newline] @ ''Schema: integer'' @ [newline] @ ''Value: x'') None"
    by (simp add: demo_schema_error_def)
  have r: "restoredContext (demo_context [OpWriteHeader 200, OpWrite ''id=x'']) = demo_context []"
    by (simp add: demo_simps)
  have e: "errors_As_MultiError (RequestError (''request body has an error'' @ [newline] @ ''Schema: integer'') None) = None"
    by simp
  have f: "getRequestValidationInput demo_env (Request (demo_request ''lines'' ''/resource'' [])) demo_router None
      = Inr \<lparr>rvi_Request = \<lparr>Method = ''lines'', URL = ''/resource''\<rparr>, rvi_PathParams = [], rvi_Route = ''lines'',
             rvi_Options = None, rvi_ParamDecoder = None\<rparr>"
    by (simp add: demo_simps)
  have g: "ValidateRequest demo_env (getRequestContext (demo_request ''lines'' ''/resource'' []) None)
       \<lparr>rvi_Request = \<lparr>Method = ''lines'', URL = ''/resource''\<rparr>, rvi_PathParams = [], rvi_Route = ''lines'',
             rvi_Options = None, rvi_ParamDecoder = None\<rparr>
      = Some (RequestError (''request body has an error'' @ [newline] @ ''Schema: integer'') None)"
    by (simp add: demo_simps)
  from structured_error_first_line [OF a, where rtr = demo_router and E = demo_env and options = None
      and c = "demo_context [OpWriteHeader 200, OpWrite ''id=x'']" and rt = "''getResource''" and pp = "[]"
      and cause = None
      and t = "''response body does not match schema'' @ [newline] @ ''Schema: integer'' @ [newline] @ ''Value: x''"] b c d r
  have 1: "ValidateResponseFromContext demo_env (demo_context [OpWriteHeader 200, OpWrite ''id=x''])
       demo_router None =
     Inr (Some (ErrorString ''error in openapi3filter.ResponseError: response body does not match schema''),
          demo_context [])"
    by (simp add: demo_schema_error_def first_line_def newline_def)
  from structured_error_first_line [OF e, where E = demo_env and rtr = demo_router and options = None
      and c = "demo_request ''lines'' ''/resource'' []" and t = "''request body has an error'' @ [newline] @ ''Schema: integer''"
      and cause = None
      and vi = "\<lparr>rvi_Request = \<lparr>Method = ''lines'', URL = ''/resource''\<rparr>, rvi_PathParams = [], rvi_Route = ''lines'',
             rvi_Options = None, rvi_ParamDecoder = None\<rparr>"] f g
  have 2: "ValidateRequestFromContext demo_env (demo_request ''lines'' ''/resource'' []) demo_router None =
     Inr (Some (ErrorString ''error in openapi3filter.RequestError: request body has an error''),
          demo_request ''lines'' ''/resource'' [])"
    by (simp add: first_line_def newline_def)
  from 1 2 show ?thesis by simp
qed

text \<open>
  C8. When \<open>errors.As\<close> finds a \<open>MultiError\<close> in the engine's error, whatever the dynamic
  type of that error, the error returned is what the aggregate handler makes of the
  members found: the configured \<open>MultiErrorHandler\<close>, or else the default one, whose
  message joins the texts of all members behind a fixed prefix. This holds on the
  response path and on the request path, so no arm of the type switch is reached.
\<close>

theorem aggregate_error_priority:
  assumes "errors_As_MultiError err = Some me"
  shows "(rtr (Request c) = Inr (rt, pp) \<and> engineVerdict E c rt pp options = Some err \<longrightarrow>
            ValidateResponseFromContext E c rtr options =
              Inr (getMultiErrorHandlerFromOptions options me, restoredContext c))
       \<and> (getRequestValidationInput E (Request c) rtr options = Inr vi \<and>
          ValidateRequest E (getRequestContext c options) vi = Some err \<longrightarrow>
            ValidateRequestFromContext E c rtr options =
              Inr (getMultiErrorHandlerFromOptions options me, c))
       \<and> getMultiErrorHandlerFromOptions options me =
           (case customMultiErrorHandler options of
              Some h \<Rightarrow> h me
            | None \<Rightarrow>
                Some (ErrorString (''multiple errors encountered: '' @
                                   concat (map (\<lambda>e. Error e @ '' | '') me))))"
proof (intro conjI impI)
  assume h: "rtr (Request c) = Inr (rt, pp) \<and> engineVerdict E c rt pp options = Some err"
  then show "ValidateResponseFromContext E c rtr options =
              Inr (getMultiErrorHandlerFromOptions options me, restoredContext c)"
    using ValidateResponseFromContext_reject [of rtr c rt pp E options err]
      classifyResponseError_aggregate [OF assms, of options]
    by simp
next
  assume h: "getRequestValidationInput E (Request c) rtr options = Inr vi \<and>
          ValidateRequest E (getRequestContext c options) vi = Some err"
  then show "ValidateRequestFromContext E c rtr options =
              Inr (getMultiErrorHandlerFromOptions options me, c)"
    using ValidateRequestFromContext_reject [of E c rtr options vi err]
      classifyRequestError_aggregate [OF assms, of options]
    by simp
next
  show "getMultiErrorHandlerFromOptions options me =
           (case customMultiErrorHandler options of
              Some h \<Rightarrow> h me
            | None \<Rightarrow>
                Some (ErrorString (''multiple errors encountered: '' @
                                   concat (map (\<lambda>e. Error e @ '' | '') me))))"
    by (simp add: getMultiErrorHandlerFromOptions_eq defaultMultiErrorHandler_def
        split: option.splits)
qed

theorem aggregate_error_priority_witness:
  "ValidateResponseFromContext demo_env (demo_context [OpWrite ''many'']) demo_router None =
     Inr (Some (ErrorString
            ''multiple errors encountered: id must be an integer | name is missing | ''),
          demo_context [])
   \<and> ValidateRequestFromContext demo_env (demo_request ''many'' ''/resource'' []) demo_router
        (Some lenient_options) =
     Inr (None, demo_request ''many'' ''/resource'' [])"
proof -
  have a: "errors_As_MultiError (ResponseError ''response body does not match schema'' (Some demo_aggregate))
             = Some [ErrorString ''id must be an integer'', ErrorString ''name is missing'']"
    by (simp add: demo_aggregate_def)
  have b: "demo_router (Request (demo_context [OpWrite ''many''])) = Inr (''getResource'', [])"
    by (simp add: demo_simps)
  have c: "engineVerdict demo_env (demo_context [OpWrite ''many'']) ''getResource'' [] None
             = Some (ResponseError ''response body does not match schema'' (Some demo_aggregate))"
    by (simp add: demo_simps)
  have r: "restoredContext (demo_context [OpWrite ''many'']) = demo_context []"
    by (simp add: demo_simps)
  have e: "errors_As_MultiError (WrapError ''validation: '' demo_aggregate)
             = Some [ErrorString ''id must be an integer'', ErrorString ''name is missing'']"
    by (simp add: demo_aggregate_def)
  have f: "getRequestValidationInput demo_env (Request (demo_request ''many'' ''/resource'' [])) demo_router
        (Some lenient_options)
      = Inr \<lparr>rvi_Request = \<lparr>Method = ''many'', URL = ''/resource''\<rparr>, rvi_PathParams = [], rvi_Route = ''many'',
             rvi_Options = None, rvi_ParamDecoder = None\<rparr>"
    by (simp add: demo_simps)
  have g: "ValidateRequest demo_env (getRequestContext (demo_request ''many'' ''/resource'' []) (Some lenient_options))
       \<lparr>rvi_Request = \<lparr>Method = ''many'', URL = ''/resource''\<rparr>, rvi_PathParams = [], rvi_Route = ''many'',
             rvi_Options = None, rvi_ParamDecoder = None\<rparr>
      = Some (WrapError ''validation: '' demo_aggregate)"
    by (simp add: demo_simps)
  from aggregate_error_priority [OF a, where rtr = demo_router and E = demo_env and options = None
      and c = "demo_context [OpWrite ''many'']" and rt = "''getResource''" and pp = "[]"] b c r
  have 1: "ValidateResponseFromContext demo_env (demo_context [OpWrite ''many'']) demo_router None =
     Inr (Some (ErrorString
            ''multiple errors encountered: id must be an integer | name is missing | ''),
          demo_context [])"
    by (simp add: customMultiErrorHandler_def)
  from aggregate_error_priority [OF e, where E = demo_env and rtr = demo_router
      and options = "Some lenient_options"
      and c = "demo_request ''many'' ''/resource'' []"
      and vi = "\<lparr>rvi_Request = \<lparr>Method = ''many'', URL = ''/resource''\<rparr>, rvi_PathParams = [], rvi_Route = ''many'',
             rvi_Options = None, rvi_ParamDecoder = None\<rparr>"] f g
  have 2: "ValidateRequestFromContext demo_env (demo_request ''many'' ''/resource'' []) demo_router
        (Some lenient_options) =
     Inr (None, demo_request ''many'' ''/resource'' [])"
    by (simp add: customMultiErrorHandler_def lenient_options_def)
  from 1 2 show ?thesis by simp
qed

text \<open>
  C9, as stated, fails: classification does not end with an error for every shape of
  engine error. Here the engine rejects the response with an aggregate error and the
  configured \<open>MultiErrorHandler\<close> returns nil, so \<open>ValidateResponseFromContext\<close> returns nil.
\<close>

theorem classification_without_error_counterexample:
  "engineVerdict demo_env (demo_context [OpWrite ''many'']) ''getResource'' [] (Some lenient_options)
     = Some (ResponseError ''response body does not match schema'' (Some demo_aggregate))
   \<and> ValidateResponseFromContext demo_env (demo_context [OpWrite ''many'']) demo_router
        (Some lenient_options) = Inr (None, demo_context [])"
  by (simp add: ValidateResponseFromContext_def classifyResponseError_def
      getMultiErrorHandlerFromOptions_def demo_simps)

text \<open>
  C9, amended. An engine error that is neither an aggregate, nor the structured
  validation error of the path, nor a security-requirements error is returned wrapped
  behind \<open>error validating response: \<close> (on the request path,
  \<open>error validating request: \<close>), with the engine's error as the wrapped cause. For
  every shape of engine error the classification returns and does not panic, and what
  it returns is an error, except when the error is an aggregate and the configured
  \<open>MultiErrorHandler\<close> itself returns nil.
\<close>

theorem classification_total:
  "(rtr (Request c) = Inr (rt, pp) \<and> engineVerdict E c rt pp options = Some err \<and>
    errors_As_MultiError err = None \<and> (\<forall>t cause. err \<noteq> ResponseError t cause) \<and>
    (\<forall>t. err \<noteq> SecurityRequirementsError t) \<longrightarrow>
      ValidateResponseFromContext E c rtr options =
        Inr (Some (WrapError ''error validating response: '' err), restoredContext c))
   \<and> (getRequestValidationInput E (Request c) rtr options = Inr vi \<and>
      ValidateRequest E (getRequestContext c options) vi = Some err' \<and>
      errors_As_MultiError err' = None \<and> (\<forall>t cause. err' \<noteq> RequestError t cause) \<and>
      (\<forall>t. err' \<noteq> SecurityRequirementsError t) \<longrightarrow>
        ValidateRequestFromContext E c rtr options =
          Inr (Some (WrapError ''error validating request: '' err'), c))
   \<and> (rtr (Request c) = Inr (rt, pp) \<and> engineVerdict E c rt pp options = Some err \<longrightarrow>
        (\<exists>r. ValidateResponseFromContext E c rtr options = Inr (r, restoredContext c) \<and>
             (r = None \<longrightarrow>
                (\<exists>me h. errors_As_MultiError err = Some me \<and>
                        customMultiErrorHandler options = Some h \<and> h me = None))))
   \<and> (getRequestValidationInput E (Request c) rtr options = Inr vi \<and>
      ValidateRequest E (getRequestContext c options) vi = Some err' \<longrightarrow>
        (\<exists>r. ValidateRequestFromContext E c rtr options = Inr (r, c) \<and>
             (r = None \<longrightarrow>
                (\<exists>me h. errors_As_MultiError err' = Some me \<and>
                        customMultiErrorHandler options = Some h \<and> h me = None))))
   \<and> Error (WrapError ''error validating response: '' err) = ''error validating response: '' @ Error err
   \<and> Error (WrapError ''error validating request: '' err') = ''error validating request: '' @ Error err'"
proof (intro conjI impI)
  assume h: "rtr (Request c) = Inr (rt, pp) \<and> engineVerdict E c rt pp options = Some err \<and>
    errors_As_MultiError err = None \<and> (\<forall>t cause. err \<noteq> ResponseError t cause) \<and>
    (\<forall>t. err \<noteq> SecurityRequirementsError t)"
  then have "classifyResponseError options err = Inr (Some (WrapError ''error validating response: '' err))"
    by (simp add: classifyResponseError_default)
  with h show "ValidateResponseFromContext E c rtr options =
        Inr (Some (WrapError ''error validating response: '' err), restoredContext c)"
    using ValidateResponseFromContext_reject [of rtr c rt pp E options err] by simp
next
  assume h: "getRequestValidationInput E (Request c) rtr options = Inr vi \<and>
      ValidateRequest E (getRequestContext c options) vi = Some err' \<and>
      errors_As_MultiError err' = None \<and> (\<forall>t cause. err' \<noteq> RequestError t cause) \<and>
      (\<forall>t. err' \<noteq> SecurityRequirementsError t)"
  then have "classifyRequestError options err' = Inr (Some (WrapError ''error validating request: '' err'))"
    by (simp add: classifyRequestError_default)
  with h show "ValidateRequestFromContext E c rtr options =
          Inr (Some (WrapError ''error validating request: '' err'), c)"
    using ValidateRequestFromContext_reject [of E c rtr options vi err'] by simp
next
  assume h: "rtr (Request c) = Inr (rt, pp) \<and> engineVerdict E c rt pp options = Some err"
  show "\<exists>r. ValidateResponseFromContext E c rtr options = Inr (r, restoredContext c) \<and>
             (r = None \<longrightarrow>
                (\<exists>me h. errors_As_MultiError err = Some me \<and>
                        customMultiErrorHandler options = Some h \<and> h me = None))"
  proof (cases "errors_As_MultiError err")
    case None
    then obtain e where "classifyResponseError options err = Inr (Some e)"
      using classifyResponseError_Some by blast
    with h show ?thesis
      using ValidateResponseFromContext_reject [of rtr c rt pp E options err] by simp
  next
    case (Some me)
    then have "classifyResponseError options err = Inr (getMultiErrorHandlerFromOptions options me)"
      by (rule classifyResponseError_aggregate)
    with h have "ValidateResponseFromContext E c rtr options =
        Inr (getMultiErrorHandlerFromOptions options me, restoredContext c)"
      using ValidateResponseFromContext_reject [of rtr c rt pp E options err] by simp
    moreover have "getMultiErrorHandlerFromOptions options me = None \<longrightarrow>
        (\<exists>h. customMultiErrorHandler options = Some h \<and> h me = None)"
      by (simp add: getMultiErrorHandlerFromOptions_eq defaultMultiErrorHandler_def
          split: option.splits)
    ultimately show ?thesis using Some by simp
  qed
next
  assume h: "getRequestValidationInput E (Request c) rtr options = Inr vi \<and>
      ValidateRequest E (getRequestContext c options) vi = Some err'"
  show "\<exists>r. ValidateRequestFromContext E c rtr options = Inr (r, c) \<and>
             (r = None \<longrightarrow>
                (\<exists>me h. errors_As_MultiError err' = Some me \<and>
                        customMultiErrorHandler options = Some h \<and> h me = None))"
  proof (cases "errors_As_MultiError err'")
    case None
    then obtain e where "classifyRequestError options err' = Inr (Some e)"
      using classifyRequestError_Some by blast
    with h show ?thesis
      using ValidateRequestFromContext_reject [of E c rtr options vi err'] by simp
  next
    case (Some me)
    then have "classifyRequestError options err' = Inr (getMultiErrorHandlerFromOptions options me)"
      by (rule classifyRequestError_aggregate)
    with h have "ValidateRequestFromContext E c rtr options =
        Inr (getMultiErrorHandlerFromOptions options me, c)"
      using ValidateRequestFromContext_reject [of E c rtr options vi err'] by simp
    moreover have "getMultiErrorHandlerFromOptions options me = None \<longrightarrow>
        (\<exists>h. customMultiErrorHandler options = Some h \<and> h me = None)"
      by (simp add: getMultiErrorHandlerFromOptions_eq defaultMultiErrorHandler_def
          split: option.splits)
    ultimately show ?thesis using Some by simp
  qed
qed simp_all

theorem classification_total_witness:
  "ValidateResponseFromContext demo_env (demo_context [OpWrite ''other'']) demo_router None =
     Inr (Some (WrapError ''error validating response: '' (ErrorString ''unexpected'')), demo_context [])
   \<and> ValidateRequestFromContext demo_env (demo_request ''POST'' ''/resource'' []) demo_router None =
     Inr (Some (WrapError ''error validating request: '' (ResponseError ''not a request error'' None)),
          demo_request ''POST'' ''/resource'' [])"
proof -
  let ?c = "demo_context [OpWrite ''other'']"
  let ?d = "demo_request ''POST'' ''/resource'' []"
  let ?vi = "\<lparr>rvi_Request = \<lparr>Method = ''POST'', URL = ''/resource''\<rparr>, rvi_PathParams = [],
             rvi_Route = ''POST'', rvi_Options = None, rvi_ParamDecoder = None\<rparr>"
  have b: "demo_router (Request ?c) = Inr (''getResource'', [])"
    by (simp add: demo_simps)
  have c: "engineVerdict demo_env ?c ''getResource'' [] None = Some (ErrorString ''unexpected'')"
    by (simp add: demo_simps)
  have r: "restoredContext ?c = demo_context []"
    by (simp add: demo_simps)
  have f: "getRequestValidationInput demo_env (Request ?d) demo_router None = Inr ?vi"
    by (simp add: demo_simps)
  have g: "ValidateRequest demo_env (getRequestContext ?d None) ?vi
      = Some (ResponseError ''not a request error'' None)"
    by (simp add: demo_simps)
  from classification_total [where rtr = demo_router and E = demo_env and options = None
      and c = ?c and rt = "''getResource''" and pp = "[]" and err = "ErrorString ''unexpected''"] b c r
  have 1: "ValidateResponseFromContext demo_env ?c demo_router None =
     Inr (Some (WrapError ''error validating response: '' (ErrorString ''unexpected'')), demo_context [])"
    by simp
  from classification_total [where rtr = demo_router and E = demo_env and options = None
      and c = ?d and vi = ?vi and err' = "ResponseError ''not a request error'' None"] f g
  have 2: "ValidateRequestFromContext demo_env ?d demo_router None =
     Inr (Some (WrapError ''error validating request: '' (ResponseError ''not a request error'' None)), ?d)"
    by simp
  from 1 2 show ?thesis by simp
qed

section \<open>Operations on the writer and on the context\<close>

lemma Status_Write [simp]: "Status (snd (Write b w)) = Status w"
  by (cases w) simp_all

lemma Header_Write [simp]: "Header (snd (Write b w)) = Header w"
  by (cases w) simp_all

lemma Status_WriteHeader [simp]: "Status (WriteHeader code w) = code"
  by (induction w) simp_all

lemma Header_WriteHeader [simp]: "Header (WriteHeader code w) = Header w"
  by (induction w) simp_all

lemma Status_Header_Set [simp]: "Status (Header_Set k v w) = Status w"
  by (induction w) simp_all

lemma Header_Header_Set [simp]: "Header (Header_Set k v w) = header_Set k v (Header w)"
  by (induction w) simp_all

lemma sink_writes_WriteHeader [simp]: "sink_writes (WriteHeader code w) = sink_writes w"
  by (induction w) simp_all

lemma sink_writes_Header_Set [simp]: "sink_writes (Header_Set k v w) = sink_writes w"
  by (induction w) simp_all

lemma Status_run_writer_ops: "Status (run_writer_ops ops w) = chosen_status ops (Status w)"
proof (induction ops arbitrary: w)
  case Nil
  show ?case by simp
next
  case (Cons x xs)
  then show ?case by (cases x) simp_all
qed

lemma Header_run_writer_ops: "Header (run_writer_ops ops w) = chosen_header ops (Header w)"
proof (induction ops arbitrary: w)
  case Nil
  show ?case by simp
next
  case (Cons x xs)
  then show ?case by (cases x) simp_all
qed



lemma apply_writer_op_interceptor:
  "apply_writer_op x (responseInterceptor w buf) =
     (case x of
        OpWrite b \<Rightarrow> responseInterceptor w (buf @ b)
      | _ \<Rightarrow> responseInterceptor (apply_writer_op x w) buf)"
  by (cases x) simp_all

lemma run_writer_ops_interceptor:
  "run_writer_ops ops (responseInterceptor w buf) =
     responseInterceptor (run_writer_ops (filter (\<lambda>x. \<not> is_OpWrite x) ops) w)
       (buf @ written_bytes ops)"
proof (induction ops arbitrary: w buf)
  case Nil
  show ?case by simp
next
  case (Cons x xs)
  then show ?case by (cases x) simp_all
qed

lemma sink_writes_no_Write:
  "sink_writes (run_writer_ops (filter (\<lambda>x. \<not> is_OpWrite x) ops) w) = sink_writes w"
proof (induction ops arbitrary: w)
  case Nil
  show ?case by simp
next
  case (Cons x xs)
  then show ?case by (cases x) simp_all
qed

lemma sink_writes_interceptor_run:
  "sink_writes (run_writer_ops ops (responseInterceptor w buf)) = sink_writes w"
  by (simp add: run_writer_ops_interceptor sink_writes_no_Write)


lemma rw_write_err_no_Write:
  "\<exists>w'. run_writer_ops (filter (\<lambda>x. \<not> is_OpWrite x) ops) (GinWriter w) = GinWriter w' \<and>
        rw_write_err w' = rw_write_err w \<and> rw_writes w' = rw_writes w"
proof (induction ops arbitrary: w)
  case Nil
  show ?case by simp
next
  case (Cons x xs)
  show ?case
  proof (cases x)
    case (OpWriteHeader code)
    with Cons [of "w\<lparr>rw_status := code\<rparr>"] show ?thesis by simp
  next
    case (OpHeaderSet k v)
    with Cons [of "w\<lparr>rw_header := header_Set k v (rw_header w)\<rparr>"] show ?thesis by simp
  next
    case (OpWrite b)
    with Cons [of w] show ?thesis by simp
  next
    case OpAbort
    with Cons [of w] show ?thesis by simp
  qed
qed

lemma Writer_apply_op [simp]: "Writer (apply_op x c) = apply_writer_op x (Writer c)"
  by (cases x) (simp_all add: Abort_def)

lemma handlers_apply_op [simp]: "handlers (apply_op x c) = handlers c"
  by (cases x) (simp_all add: Abort_def)

lemma Request_apply_op [simp]: "Request (apply_op x c) = Request c"
  by (cases x) (simp_all add: Abort_def)

lemma Writer_run_ops: "Writer (run_ops ops c) = run_writer_ops ops (Writer c)"
  by (induction ops arbitrary: c) simp_all

lemma handlers_run_ops [simp]: "handlers (run_ops ops c) = handlers c"
  by (induction ops arbitrary: c) simp_all

lemma Request_run_ops [simp]: "Request (run_ops ops c) = Request c"
  by (induction ops arbitrary: c) simp_all

lemma Writer_afterHandlers:
  "Writer (afterHandlers c) =
     (if aborted c then responseInterceptor (Writer c) []
      else responseInterceptor
             (run_writer_ops (filter (\<lambda>x. \<not> is_OpWrite x) (handlers c)) (Writer c))
             (written_bytes (handlers c)))"
  by (simp add: afterHandlers_def Next_def Writer_run_ops run_writer_ops_interceptor)

lemma AbortWithStatusJSON_facts:
  "aborted (AbortWithStatusJSON E code obj c) \<and>
   handlers (AbortWithStatusJSON E code obj c) = handlers c \<and>
   Request (AbortWithStatusJSON E code obj c) = Request c \<and>
   Status (Writer (AbortWithStatusJSON E code obj c)) = code \<and>
   Writer (AbortWithStatusJSON E code obj c) =
     snd (Write (json_Marshal E obj) (WriteHeader code (Writer c)))"
  by (simp add: AbortWithStatusJSON_def Abort_def Let_def)

lemma responseValidatorFunc_error:
  "ValidateResponseFromContext E c rtr options = Inr (Some err, c') \<Longrightarrow>
   responseValidatorFunc E rtr options c =
     Inr (case customErrorHandler options of
            Some eh \<Rightarrow> Abort (run_ops (eh c' (Error err) StatusInternalServerError) c')
          | None \<Rightarrow> AbortWithStatusJSON E StatusInternalServerError [(''error'', Error err)] c')"
  by (simp add: responseValidatorFunc_def customErrorHandler_def split: option.splits)

lemma responseValidatorFunc_ok:
  "ValidateResponseFromContext E c rtr options = Inr (None, c') \<Longrightarrow>
   responseValidatorFunc E rtr options c = Inr c'"
  by (simp add: responseValidatorFunc_def)

section \<open>The response interceptor\<close>

text \<open>
  C6. Under the interceptor every operation but \<open>Write\<close> acts on the wrapped writer as
  it would without the interceptor and leaves the buffer alone, and \<open>Write\<close> appends to
  the buffer and leaves the wrapped writer alone. So after the handlers have run, the
  wrapped writer is what the operations other than \<open>Write\<close> make of it; the status and
  the headers are those of a run without the interceptor; nothing was written to the
  sink; the buffer holds the written bytes in order; and \<open>Status()\<close> and \<open>Header()\<close> read
  through the interceptor are those of the wrapped writer.
\<close>

theorem interceptor_frame:
  "apply_writer_op x (responseInterceptor w buf) =
     (case x of
        OpWrite b \<Rightarrow> responseInterceptor w (buf @ b)
      | _ \<Rightarrow> responseInterceptor (apply_writer_op x w) buf)
   \<and> run_writer_ops ops (responseInterceptor w buf) =
       responseInterceptor (run_writer_ops (filter (\<lambda>x. \<not> is_OpWrite x) ops) w)
         (buf @ written_bytes ops)
   \<and> Status (run_writer_ops ops (responseInterceptor w buf)) = Status (run_writer_ops ops w)
   \<and> Header (run_writer_ops ops (responseInterceptor w buf)) = Header (run_writer_ops ops w)
   \<and> sink_writes (run_writer_ops ops (responseInterceptor w buf)) = sink_writes w
   \<and> Status (responseInterceptor w buf) = Status w
   \<and> Header (responseInterceptor w buf) = Header w
   \<and> Writer (afterHandlers c) =
       (if aborted c then responseInterceptor (Writer c) []
        else responseInterceptor
               (run_writer_ops (filter (\<lambda>x. \<not> is_OpWrite x) (handlers c)) (Writer c))
               (written_bytes (handlers c)))"
proof (intro conjI)
  show "Status (run_writer_ops ops (responseInterceptor w buf)) = Status (run_writer_ops ops w)"
    by (simp add: Status_run_writer_ops)
  show "Header (run_writer_ops ops (responseInterceptor w buf)) = Header (run_writer_ops ops w)"
    by (simp add: Header_run_writer_ops)
qed (simp_all add: apply_writer_op_interceptor run_writer_ops_interceptor
    sink_writes_no_Write Writer_afterHandlers)

theorem interceptor_frame_witness:
  "run_writer_ops [OpWriteHeader 201, OpWrite ''id='', OpHeaderSet ''Content-Type'' ''text/plain'', OpWrite ''7'']
     (responseInterceptor (GinWriter demo_writer) []) =
   responseInterceptor
     (GinWriter \<lparr>rw_status = 201, rw_header = [(''Content-Type'', ''text/plain'')], rw_writes = [],
                rw_write_err = None\<rparr>)
     ''id=7''"
  using interceptor_frame [of "OpWrite ''x''" "GinWriter demo_writer" "[]"
      "[OpWriteHeader 201, OpWrite ''id='', OpHeaderSet ''Content-Type'' ''text/plain'', OpWrite ''7'']"
      "demo_context []"]
  by (simp add: demo_writer_def header_Set_def)

section \<open>Routing failures\<close>

text \<open>
  C5, as stated, fails for a router error that is not a \<open>RouteError\<close>: the message is not
  the raw text of the error. Here the router fails with the error \<open>boom\<close> and the message
  is \<open>error validating route: boom\<close>.
\<close>

theorem route_error_message_counterexample:
  "demo_router (Request (demo_request ''GET'' ''/broken'' [OpWrite ''id=7''])) = Inl (ErrorString ''boom'')
   \<and> ValidateResponseFromContext demo_env (demo_request ''GET'' ''/broken'' [OpWrite ''id=7''])
        demo_router None =
       Inr (Some (ErrorString ''error validating route: boom''),
            demo_request ''GET'' ''/broken'' [OpWrite ''id=7''])
   \<and> Error (ErrorString ''error validating route: boom'') \<noteq> Error (ErrorString ''boom'')"
  by (simp add: ValidateResponseFromContext_def demo_simps)

text \<open>
  C5, amended. When the router finds no route, \<open>ValidateResponseFromContext\<close> returns an
  error and the context as it received it: no handler has run and nothing was written.
  The message is the \<open>Reason\<close> of a \<open>RouteError\<close>, and for any other error its text behind
  the prefix \<open>error validating route: \<close>. The middleware then aborts the chain with the
  handlers still pending.
\<close>

theorem no_route_short_circuit:
  assumes "rtr (Request c) = Inl err"
  shows "ValidateResponseFromContext E c rtr options =
           Inr (Some (ErrorString (case err of
                                     RouteError reason \<Rightarrow> reason
                                   | _ \<Rightarrow> ''error validating route: '' @ Error err)), c)
       \<and> (\<exists>cf. responseValidatorFunc E rtr options c = Inr cf \<and> aborted cf \<and>
                handlers cf = handlers c)"
proof -
  let ?e = "ErrorString (case err of RouteError reason \<Rightarrow> reason
                         | _ \<Rightarrow> ''error validating route: '' @ Error err)"
  have v: "ValidateResponseFromContext E c rtr options = Inr (Some ?e, c)"
    using assms by (rule ValidateResponseFromContext_no_route)
  have "responseValidatorFunc E rtr options c =
     Inr (case customErrorHandler options of
            Some eh \<Rightarrow> Abort (run_ops (eh c (Error ?e) StatusInternalServerError) c)
          | None \<Rightarrow> AbortWithStatusJSON E StatusInternalServerError [(''error'', Error ?e)] c)"
    using v by (rule responseValidatorFunc_error)
  then have "\<exists>cf. responseValidatorFunc E rtr options c = Inr cf \<and> aborted cf \<and>
                handlers cf = handlers c"
    by (simp add: AbortWithStatusJSON_facts Abort_def split: option.splits)
  with v show ?thesis by simp
qed

theorem no_route_short_circuit_witness:
  "ValidateResponseFromContext demo_env (demo_request ''POST'' ''/resource'' [OpWrite ''id=7''])
        demo_router None =
     Inr (Some (ErrorString ''method not allowed''),
          demo_request ''POST'' ''/resource'' [OpWrite ''id=7''])
   \<and> ValidateResponseFromContext demo_env (demo_request ''GET'' ''/broken'' [OpWrite ''id=7''])
        demo_router None =
     Inr (Some (ErrorString ''error validating route: boom''),
          demo_request ''GET'' ''/broken'' [OpWrite ''id=7''])"
proof -
  have a: "demo_router (Request (demo_request ''POST'' ''/resource'' [OpWrite ''id=7'']))
             = Inl (RouteError ''method not allowed'')"
    by (simp add: demo_simps)
  have b: "demo_router (Request (demo_request ''GET'' ''/broken'' [OpWrite ''id=7'']))
             = Inl (ErrorString ''boom'')"
    by (simp add: demo_simps)
  from a b
    no_route_short_circuit [where rtr = demo_router and E = demo_env and options = None
      and c = "demo_request ''POST'' ''/resource'' [OpWrite ''id=7'']"
      and err = "RouteError ''method not allowed''"]
    no_route_short_circuit [where rtr = demo_router and E = demo_env and options = None
      and c = "demo_request ''GET'' ''/broken'' [OpWrite ''id=7'']"
      and err = "ErrorString ''boom''"]
  show ?thesis by simp
qed

section \<open>Committing or discarding the captured response\<close>

lemma ValidateResponseFromContext_accept:
  "rtr (Request c) = Inr (rt, pp) \<Longrightarrow> engineVerdict E c rt pp options = None \<Longrightarrow>
   ValidateResponseFromContext E c rtr options =
     (let bw = Writer (afterHandlers c);
          r = Write (body bw) (ResponseWriter bw);
          c3 = (afterHandlers c)\<lparr>Writer := responseInterceptor (snd r) (body bw)\<rparr>
      in Inr (map_option (WrapError ''error writing response body: '') (fst r), c3))"
  unfolding ValidateResponseFromContext_def engineVerdict_def capturedInput_def
    capturedBody_def restoredContext_def afterHandlers_def
  by (simp add: Let_def split: prod.splits option.splits)

lemma afterHandlers_interceptor:
  "Writer (afterHandlers c) = responseInterceptor (Writer (restoredContext c)) (capturedBody c)"
  by (simp add: restoredContext_def capturedBody_def Writer_afterHandlers)

lemma capturedBody_eq:
  "capturedBody c = (if aborted c then [] else written_bytes (handlers c))"
  by (simp add: capturedBody_def Writer_afterHandlers)

lemma Writer_restoredContext:
  "Writer (restoredContext c) =
     (if aborted c then Writer c
      else run_writer_ops (filter (\<lambda>x. \<not> is_OpWrite x) (handlers c)) (Writer c))"
  by (simp add: restoredContext_def Writer_afterHandlers)

lemma restoredContext_real:
  assumes "Writer c = GinWriter w0"
  shows "\<exists>w'. Writer (restoredContext c) = GinWriter w' \<and> rw_writes w' = rw_writes w0 \<and>
              rw_write_err w' = rw_write_err w0"
proof (cases "aborted c")
  case True
  with assms show ?thesis by (simp add: Writer_restoredContext)
next
  case False
  with assms rw_write_err_no_Write [of "handlers c" w0] show ?thesis
    by (auto simp add: Writer_restoredContext)
qed



text \<open>The context after the buffer has been written to the real writer (line 177).\<close>

lemma accept_result:
  assumes "rtr (Request c) = Inr (rt, pp)" and "engineVerdict E c rt pp options = None"
    and "Writer c = GinWriter w0"
  shows "\<exists>w'. Writer (restoredContext c) = GinWriter w' \<and> rw_writes w' = rw_writes w0 \<and>
          ValidateResponseFromContext E c rtr options =
            Inr (map_option (WrapError ''error writing response body: '') (rw_write_err w0),
                 (afterHandlers c)\<lparr>Writer := responseInterceptor
                    (GinWriter (w'\<lparr>rw_writes := rw_writes w0 @ [capturedBody c]\<rparr>))
                    (capturedBody c)\<rparr>)"
proof -
  from restoredContext_real [OF assms(3)] obtain w' where
    w': "Writer (restoredContext c) = GinWriter w'" "rw_writes w' = rw_writes w0"
      "rw_write_err w' = rw_write_err w0"
    by blast
  have "ValidateResponseFromContext E c rtr options =
            Inr (map_option (WrapError ''error writing response body: '') (rw_write_err w0),
                 (afterHandlers c)\<lparr>Writer := responseInterceptor
                    (GinWriter (w'\<lparr>rw_writes := rw_writes w0 @ [capturedBody c]\<rparr>))
                    (capturedBody c)\<rparr>)"
    using ValidateResponseFromContext_accept [where rtr = rtr, OF assms(1) assms(2)] w'
    by (simp add: afterHandlers_interceptor Let_def)
  with w' show ?thesis by blast
qed

lemma sink_writes_error_response_intercepted:
  assumes "Writer c' = responseInterceptor W buf"
  shows "sink_writes (Writer (case customErrorHandler options of
            Some eh \<Rightarrow> Abort (run_ops (eh c' m code) c')
          | None \<Rightarrow> AbortWithStatusJSON E code obj c')) = sink_writes W"
  using assms
  by (simp add: AbortWithStatusJSON_facts Abort_def Writer_run_ops sink_writes_interceptor_run
      split: option.splits)

lemma accept_sink_writes:
  assumes "rtr (Request c) = Inr (rt, pp)" and "engineVerdict E c rt pp options = None"
    and "Writer c = GinWriter w0"
  shows "\<exists>cf. responseValidatorFunc E rtr options c = Inr cf \<and>
              sink_writes (Writer cf) = rw_writes w0 @ [capturedBody c]"
proof -
  from accept_result [where rtr = rtr, OF assms] obtain w' where
    v: "ValidateResponseFromContext E c rtr options =
            Inr (map_option (WrapError ''error writing response body: '') (rw_write_err w0),
                 (afterHandlers c)\<lparr>Writer := responseInterceptor
                    (GinWriter (w'\<lparr>rw_writes := rw_writes w0 @ [capturedBody c]\<rparr>))
                    (capturedBody c)\<rparr>)"
    by blast
  let ?c3 = "(afterHandlers c)\<lparr>Writer := responseInterceptor
                    (GinWriter (w'\<lparr>rw_writes := rw_writes w0 @ [capturedBody c]\<rparr>))
                    (capturedBody c)\<rparr>"
  show ?thesis
  proof (cases "rw_write_err w0")
    case None
    with v have "responseValidatorFunc E rtr options c = Inr ?c3"
      by (simp add: responseValidatorFunc_ok)
    then show ?thesis by simp
  next
    case (Some e)
    with v have "ValidateResponseFromContext E c rtr options =
        Inr (Some (WrapError ''error writing response body: '' e), ?c3)"
      by simp
    from responseValidatorFunc_error [OF this]
      sink_writes_error_response_intercepted [where c' = ?c3
        and W = "GinWriter (w'\<lparr>rw_writes := rw_writes w0 @ [capturedBody c]\<rparr>)"
        and buf = "capturedBody c" and options = options]
    show ?thesis by simp
  qed
qed



lemma classifyResponseError_returns: "\<exists>r. classifyResponseError options err = Inr r"
proof (cases "errors_As_MultiError err")
  case None
  then show ?thesis using classifyResponseError_Some [of err options] by blast
next
  case (Some me)
  then show ?thesis by (simp add: classifyResponseError_aggregate)
qed

lemma reject_result:
  assumes "rtr (Request c) = Inr (rt, pp)" and "engineVerdict E c rt pp options = Some err"
  shows "\<exists>r. ValidateResponseFromContext E c rtr options = Inr (r, restoredContext c) \<and>
             responseValidatorFunc E rtr options c =
               Inr (case r of
                      None \<Rightarrow> restoredContext c
                    | Some e \<Rightarrow>
                        (case customErrorHandler options of
                           Some eh \<Rightarrow>
                             Abort (run_ops (eh (restoredContext c) (Error e) 500) (restoredContext c))
                         | None \<Rightarrow>
                             AbortWithStatusJSON E 500 [(''error'', Error e)] (restoredContext c)))"
proof -
  obtain r where r: "classifyResponseError options err = Inr r"
    using classifyResponseError_returns by blast
  have v: "ValidateResponseFromContext E c rtr options = Inr (r, restoredContext c)"
    using ValidateResponseFromContext_reject [where rtr = rtr, OF assms] r by simp
  have "responseValidatorFunc E rtr options c =
               Inr (case r of
                      None \<Rightarrow> restoredContext c
                    | Some e \<Rightarrow>
                        (case customErrorHandler options of
                           Some eh \<Rightarrow>
                             Abort (run_ops (eh (restoredContext c) (Error e) 500) (restoredContext c))
                         | None \<Rightarrow>
                             AbortWithStatusJSON E 500 [(''error'', Error e)] (restoredContext c)))"
  proof (cases r)
    case None
    with v show ?thesis by (simp add: responseValidatorFunc_ok)
  next
    case (Some e)
    with v responseValidatorFunc_error [of E c rtr options e "restoredContext c"] show ?thesis
      by (simp add: StatusInternalServerError_def split: option.splits)
  qed
  with v show ?thesis by blast
qed

section \<open>The constructors\<close>

lemma getMultiErrorHandlerFromOptions_silence:
  "getMultiErrorHandlerFromOptions (Some (opts\<lparr>SilenceServersWarning := b\<rparr>)) =
   getMultiErrorHandlerFromOptions (Some opts)"
  by (simp add: getMultiErrorHandlerFromOptions_def)

lemma classifyResponseError_silence:
  "classifyResponseError (Some (opts\<lparr>SilenceServersWarning := b\<rparr>)) err =
   classifyResponseError (Some opts) err"
  by (simp add: classifyResponseError_def getMultiErrorHandlerFromOptions_silence
      cong: option.case_cong)

lemma classifyRequestError_silence:
  "classifyRequestError (Some (opts\<lparr>SilenceServersWarning := b\<rparr>)) err =
   classifyRequestError (Some opts) err"
  by (simp add: classifyRequestError_def getMultiErrorHandlerFromOptions_silence
      cong: option.case_cong)

lemma reqValidationInput_silence:
  "reqValidationInput req pp rt (Some (opts\<lparr>SilenceServersWarning := b\<rparr>)) =
   reqValidationInput req pp rt (Some opts)"
  by (simp add: reqValidationInput_def)

lemma rspValidationInput_silence:
  "rspValidationInput inp c buf (Some (opts\<lparr>SilenceServersWarning := b\<rparr>)) =
   rspValidationInput inp c buf (Some opts)"
  by (simp add: rspValidationInput_def)

lemma getRequestContext_silence:
  "getRequestContext c (Some (opts\<lparr>SilenceServersWarning := b\<rparr>)) =
   getRequestContext c (Some opts)"
  by (simp add: getRequestContext_def)

lemma ValidateResponseFromContext_silence:
  "ValidateResponseFromContext E c rtr (Some (opts\<lparr>SilenceServersWarning := b\<rparr>)) =
   ValidateResponseFromContext E c rtr (Some opts)"
  unfolding ValidateResponseFromContext_def reqValidationInput_silence rspValidationInput_silence
    getRequestContext_silence classifyResponseError_silence
  by (rule refl)

lemma responseValidatorFunc_silence:
  "responseValidatorFunc E rtr (Some (opts\<lparr>SilenceServersWarning := b\<rparr>)) =
   responseValidatorFunc E rtr (Some opts)"
  by (rule ext)
    (simp add: responseValidatorFunc_def ValidateResponseFromContext_silence
      split: sum.splits prod.splits option.splits)

lemma requestValidatorFunc_silence:
  assumes "\<forall>req rtr. getRequestValidationInput E req rtr (Some (opts\<lparr>SilenceServersWarning := b\<rparr>)) =
                     getRequestValidationInput E req rtr (Some opts)"
    and "\<forall>c err code. handleValidationError E c err (Some (opts\<lparr>SilenceServersWarning := b\<rparr>)) code =
                       handleValidationError E c err (Some opts) code"
  shows "requestValidatorFunc E rtr (Some (opts\<lparr>SilenceServersWarning := b\<rparr>)) =
         requestValidatorFunc E rtr (Some opts)"
proof (rule ext)
  fix c
  have "ValidateRequestFromContext E c rtr (Some (opts\<lparr>SilenceServersWarning := b\<rparr>)) =
        ValidateRequestFromContext E c rtr (Some opts)"
    unfolding ValidateRequestFromContext_def getRequestContext_silence classifyRequestError_silence
    using assms(1) by simp
  then show "requestValidatorFunc E rtr (Some (opts\<lparr>SilenceServersWarning := b\<rparr>)) c =
        requestValidatorFunc E rtr (Some opts) c"
    using assms(2)
    by (simp add: requestValidatorFunc_def split: sum.splits prod.splits option.splits)
qed

lemma snd_OapiRequestValidatorWithOptions:
  "snd (OapiRequestValidatorWithOptions E swagger options) =
     (case NewRouter E swagger of
        Inl err \<Rightarrow> Inl (PanicError err)
      | Inr rtr \<Rightarrow> Inr (requestValidatorFunc E rtr options))"
  by (simp add: OapiRequestValidatorWithOptions_def Let_def split: sum.splits)

lemma snd_OapiResponseValidatorWithOptions:
  "snd (OapiResponseValidatorWithOptions E swagger options) =
     (case NewRouter E swagger of
        Inl err \<Rightarrow> Inl (PanicError err)
      | Inr rtr \<Rightarrow> Inr (responseValidatorFunc E rtr options))"
  by (simp add: OapiResponseValidatorWithOptions_def Let_def split: sum.splits)

text \<open>
  C10, as stated, fails: the warning does not wait for a server list that is not empty.
  The test is \<open>swagger.Servers != nil\<close>, so a document whose server list is declared and
  empty makes the constructor log the warning.
\<close>

theorem servers_warning_counterexample:
  "Servers empty_servers_swagger = Some []
   \<and> fst (OapiResponseValidatorWithOptions demo_env empty_servers_swagger None) =
       [responseServersWarning]"
  by (simp add: OapiResponseValidatorWithOptions_def empty_servers_swagger_def demo_env_def)

text \<open>
  C10, amended. Each constructor logs its warning once, when it is called, if and only if
  the server list of the document is not nil and \<open>SilenceServersWarning\<close> is not set (no
  options, or the field false); otherwise it logs nothing. The middleware it returns is
  a function of the context alone and logs nothing. \<open>SilenceServersWarning\<close> changes
  nothing else: the response middleware built with the field set to any value is the
  one built with the options as they were, and so is the request middleware, provided
  the two helpers of the request path that take the options ignore the field.
\<close>

theorem servers_warning:
  "fst (OapiResponseValidatorWithOptions E swagger options) =
     (if Servers swagger \<noteq> None \<and> \<not> silenced options then [responseServersWarning] else [])
   \<and> fst (OapiRequestValidatorWithOptions E swagger options) =
     (if Servers swagger \<noteq> None \<and> \<not> silenced options then [requestServersWarning] else [])
   \<and> snd (OapiResponseValidatorWithOptions E swagger (Some (opts\<lparr>SilenceServersWarning := b\<rparr>))) =
     snd (OapiResponseValidatorWithOptions E swagger (Some opts))
   \<and> ((\<forall>req rtr. getRequestValidationInput E req rtr (Some (opts\<lparr>SilenceServersWarning := b\<rparr>)) =
                  getRequestValidationInput E req rtr (Some opts)) \<and>
      (\<forall>c err code. handleValidationError E c err (Some (opts\<lparr>SilenceServersWarning := b\<rparr>)) code =
                    handleValidationError E c err (Some opts) code) \<longrightarrow>
      snd (OapiRequestValidatorWithOptions E swagger (Some (opts\<lparr>SilenceServersWarning := b\<rparr>))) =
      snd (OapiRequestValidatorWithOptions E swagger (Some opts)))"
proof (intro conjI impI)
  show "fst (OapiResponseValidatorWithOptions E swagger options) =
     (if Servers swagger \<noteq> None \<and> \<not> silenced options then [responseServersWarning] else [])"
    by (simp add: OapiResponseValidatorWithOptions_def silenced_def Let_def
        split: option.splits sum.splits)
next
  show "fst (OapiRequestValidatorWithOptions E swagger options) =
     (if Servers swagger \<noteq> None \<and> \<not> silenced options then [requestServersWarning] else [])"
    by (simp add: OapiRequestValidatorWithOptions_def silenced_def Let_def
        split: option.splits sum.splits)
next
  show "snd (OapiResponseValidatorWithOptions E swagger (Some (opts\<lparr>SilenceServersWarning := b\<rparr>))) =
     snd (OapiResponseValidatorWithOptions E swagger (Some opts))"
    unfolding snd_OapiResponseValidatorWithOptions responseValidatorFunc_silence
    by (rule refl)
next
  assume "(\<forall>req rtr. getRequestValidationInput E req rtr (Some (opts\<lparr>SilenceServersWarning := b\<rparr>)) =
                  getRequestValidationInput E req rtr (Some opts)) \<and>
      (\<forall>c err code. handleValidationError E c err (Some (opts\<lparr>SilenceServersWarning := b\<rparr>)) code =
                    handleValidationError E c err (Some opts) code)"
  then have h: "\<And>rtr. requestValidatorFunc E rtr (Some (opts\<lparr>SilenceServersWarning := b\<rparr>)) =
         requestValidatorFunc E rtr (Some opts)"
    using requestValidatorFunc_silence [where E = E and opts = opts and b = b] by blast
  show "snd (OapiRequestValidatorWithOptions E swagger (Some (opts\<lparr>SilenceServersWarning := b\<rparr>))) =
      snd (OapiRequestValidatorWithOptions E swagger (Some opts))"
    unfolding snd_OapiRequestValidatorWithOptions h by (rule refl)
qed

theorem servers_warning_witness:
  "fst (OapiResponseValidatorWithOptions demo_env empty_servers_swagger (Some demo_options)) =
     [responseServersWarning]
   \<and> fst (OapiRequestValidatorWithOptions demo_env empty_servers_swagger
          (Some (demo_options\<lparr>SilenceServersWarning := True\<rparr>))) = []
   \<and> snd (OapiRequestValidatorWithOptions demo_env demo_swagger
          (Some (demo_options\<lparr>SilenceServersWarning := True\<rparr>))) =
     snd (OapiRequestValidatorWithOptions demo_env demo_swagger (Some demo_options))"
proof -
  have a: "\<forall>req rtr. getRequestValidationInput demo_env req rtr
                       (Some (demo_options\<lparr>SilenceServersWarning := True\<rparr>)) =
                     getRequestValidationInput demo_env req rtr (Some demo_options)"
    by (simp add: demo_env_def demo_getRequestValidationInput_def)
  have b: "\<forall>c err code. handleValidationError demo_env c err
                       (Some (demo_options\<lparr>SilenceServersWarning := True\<rparr>)) code =
                     handleValidationError demo_env c err (Some demo_options) code"
    by (simp add: demo_env_def demo_handleValidationError_def)
  have s: "Servers empty_servers_swagger \<noteq> None" "\<not> silenced (Some demo_options)"
    "silenced (Some (demo_options\<lparr>SilenceServersWarning := True\<rparr>))"
    by (simp_all add: empty_servers_swagger_def silenced_def demo_options_def)
  from servers_warning [where E = demo_env and swagger = empty_servers_swagger
       and options = "Some demo_options" and opts = demo_options and b = True]
    servers_warning [where E = demo_env and swagger = empty_servers_swagger
       and options = "Some (demo_options\<lparr>SilenceServersWarning := True\<rparr>)"
       and opts = demo_options and b = True]
    servers_warning [where E = demo_env and swagger = demo_swagger and options = None
       and opts = demo_options and b = True]
    a b s
  show ?thesis by simp
qed

section \<open>What follows a rejected response\<close>

lemma classifyResponseError_None_iff:
  assumes "classifyResponseError options err = Inr r"
  shows "(r = None) =
         (\<exists>me h. errors_As_MultiError err = Some me \<and>
                 customMultiErrorHandler options = Some h \<and> h me = None)"
proof (cases "errors_As_MultiError err")
  case None
  then obtain e where "classifyResponseError options err = Inr (Some e)"
    using classifyResponseError_Some by blast
  with assms have "r = Some e" by simp
  with None show ?thesis by simp
next
  case (Some me)
  then have "classifyResponseError options err = Inr (getMultiErrorHandlerFromOptions options me)"
    by (rule classifyResponseError_aggregate)
  with assms have "r = getMultiErrorHandlerFromOptions options me" by simp
  with Some show ?thesis
    by (simp add: getMultiErrorHandlerFromOptions_eq defaultMultiErrorHandler_def
        split: option.splits)
qed

lemma reject_classified:
  assumes "rtr (Request c) = Inr (rt, pp)" and "engineVerdict E c rt pp options = Some err"
  shows "\<exists>r. classifyResponseError options err = Inr r \<and>
             ValidateResponseFromContext E c rtr options = Inr (r, restoredContext c)"
proof -
  obtain r where r: "classifyResponseError options err = Inr r"
    using classifyResponseError_returns by blast
  then have "ValidateResponseFromContext E c rtr options = Inr (r, restoredContext c)"
    using ValidateResponseFromContext_reject [where rtr = rtr, OF assms] by simp
  with r show ?thesis by blast
qed

text \<open>
  C1, as stated, fails in its last part: a rejected response is not always replaced by
  an error body. Here the engine rejects the response with an aggregate error and the
  configured \<open>MultiErrorHandler\<close> returns nil: the middleware discards the buffer and
  returns, the chain is not aborted, and the real writer has received nothing, neither
  the captured bytes nor an error body.
\<close>

theorem rejected_without_error_body_counterexample:
  "engineVerdict demo_env (demo_context [OpWriteHeader 200, OpWrite ''many'']) ''getResource'' []
       (Some lenient_options)
     = Some (ResponseError ''response body does not match schema'' (Some demo_aggregate))
   \<and> responseValidatorFunc demo_env demo_router (Some lenient_options)
        (demo_context [OpWriteHeader 200, OpWrite ''many'']) = Inr (demo_context [])
   \<and> sink_writes (Writer (demo_context [])) = []
   \<and> \<not> aborted (demo_context [])"
  by (simp add: responseValidatorFunc_def ValidateResponseFromContext_def classifyResponseError_def
      getMultiErrorHandlerFromOptions_def demo_simps)

text \<open>
  C1, amended. For a routed request whose writer is the real one, the captured body is
  what the handlers passed to \<open>Write\<close>, and it is never flushed in part. If the engine
  accepts the response, the real writer receives exactly one more \<open>Write\<close>, of the
  whole buffer, whatever happens afterwards. If the engine rejects it, the writer put
  back is the real one with no \<open>Write\<close> added, and the buffer is dropped with the
  interceptor. What follows depends on the classified error \<open>r\<close> alone:
  \<^item> \<open>r\<close> is nil exactly when the error is an aggregate and a configured
    \<open>MultiErrorHandler\<close> returns nil for it; then the middleware returns the restored
    context as it is, and nothing at all is written;
  \<^item> \<open>r\<close> is an error and no \<open>ErrorHandler\<close> is configured: the encoded error object is
    the one \<open>Write\<close> the real writer receives;
  \<^item> \<open>r\<close> is an error and an \<open>ErrorHandler\<close> is configured: the handler is run on the
    restored context and the chain aborted; the real writer holds what the handler's
    own operations make of it, which may be nothing.
\<close>

theorem captured_response_all_or_nothing:
  assumes "rtr (Request c) = Inr (rt, pp)" and "Writer c = GinWriter w0"
  shows "capturedBody c = (if aborted c then [] else written_bytes (handlers c))
       \<and> (engineVerdict E c rt pp options = None \<longrightarrow>
            (\<exists>cf. responseValidatorFunc E rtr options c = Inr cf \<and>
                  sink_writes (Writer cf) = rw_writes w0 @ [capturedBody c]))
       \<and> (\<forall>err. engineVerdict E c rt pp options = Some err \<longrightarrow>
            (\<exists>w' r. Writer (restoredContext c) = GinWriter w' \<and> rw_writes w' = rw_writes w0 \<and>
                classifyResponseError options err = Inr r \<and>
                ValidateResponseFromContext E c rtr options = Inr (r, restoredContext c) \<and>
                (r = None) =
                  (\<exists>me h. errors_As_MultiError err = Some me \<and>
                          customMultiErrorHandler options = Some h \<and> h me = None) \<and>
                (r = None \<longrightarrow>
                   responseValidatorFunc E rtr options c = Inr (restoredContext c) \<and>
                   sink_writes (Writer (restoredContext c)) = rw_writes w0) \<and>
                (\<forall>e. r = Some e \<and> customErrorHandler options = None \<longrightarrow>
                   responseValidatorFunc E rtr options c =
                     Inr (AbortWithStatusJSON E 500 [(''error'', Error e)] (restoredContext c)) \<and>
                   sink_writes (Writer (AbortWithStatusJSON E 500 [(''error'', Error e)]
                                          (restoredContext c))) =
                     rw_writes w0 @ [json_Marshal E [(''error'', Error e)]]) \<and>
                (\<forall>e eh. r = Some e \<and> customErrorHandler options = Some eh \<longrightarrow>
                   (\<exists>cf. responseValidatorFunc E rtr options c = Inr cf \<and> aborted cf \<and>
                         Writer cf =
                           run_writer_ops (eh (restoredContext c) (Error e) 500) (GinWriter w')))))"
proof (intro conjI impI allI)
  show "capturedBody c = (if aborted c then [] else written_bytes (handlers c))"
    by (rule capturedBody_eq)
next
  assume "engineVerdict E c rt pp options = None"
  with assms show "\<exists>cf. responseValidatorFunc E rtr options c = Inr cf \<and>
                  sink_writes (Writer cf) = rw_writes w0 @ [capturedBody c]"
    using accept_sink_writes [where rtr = rtr] by blast
next
  fix err
  assume rej: "engineVerdict E c rt pp options = Some err"
  from restoredContext_real [OF assms(2)] obtain w' where
    w': "Writer (restoredContext c) = GinWriter w'" "rw_writes w' = rw_writes w0"
    by blast
  from reject_classified [where rtr = rtr, OF assms(1) rej] obtain r where
    k: "classifyResponseError options err = Inr r" and
    v: "ValidateResponseFromContext E c rtr options = Inr (r, restoredContext c)"
    by blast
  have i: "(r = None) =
                  (\<exists>me h. errors_As_MultiError err = Some me \<and>
                          customMultiErrorHandler options = Some h \<and> h me = None)"
    using k by (rule classifyResponseError_None_iff)
  have n: "r = None \<longrightarrow>
                   responseValidatorFunc E rtr options c = Inr (restoredContext c) \<and>
                   sink_writes (Writer (restoredContext c)) = rw_writes w0"
    using v w' by (simp add: responseValidatorFunc_ok)
  have d: "\<forall>e. r = Some e \<and> customErrorHandler options = None \<longrightarrow>
                   responseValidatorFunc E rtr options c =
                     Inr (AbortWithStatusJSON E 500 [(''error'', Error e)] (restoredContext c)) \<and>
                   sink_writes (Writer (AbortWithStatusJSON E 500 [(''error'', Error e)]
                                          (restoredContext c))) =
                     rw_writes w0 @ [json_Marshal E [(''error'', Error e)]]"
  proof (intro allI impI)
    fix e
    assume h: "r = Some e \<and> customErrorHandler options = None"
    with v have "ValidateResponseFromContext E c rtr options = Inr (Some e, restoredContext c)"
      by simp
    from responseValidatorFunc_error [OF this] h w'
    show "responseValidatorFunc E rtr options c =
                     Inr (AbortWithStatusJSON E 500 [(''error'', Error e)] (restoredContext c)) \<and>
                   sink_writes (Writer (AbortWithStatusJSON E 500 [(''error'', Error e)]
                                          (restoredContext c))) =
                     rw_writes w0 @ [json_Marshal E [(''error'', Error e)]]"
      by (simp add: AbortWithStatusJSON_facts StatusInternalServerError_def)
  qed
  have u: "\<forall>e eh. r = Some e \<and> customErrorHandler options = Some eh \<longrightarrow>
                   (\<exists>cf. responseValidatorFunc E rtr options c = Inr cf \<and> aborted cf \<and>
                         Writer cf =
                           run_writer_ops (eh (restoredContext c) (Error e) 500) (GinWriter w'))"
  proof (intro allI impI)
    fix e eh
    assume h: "r = Some e \<and> customErrorHandler options = Some eh"
    with v have "ValidateResponseFromContext E c rtr options = Inr (Some e, restoredContext c)"
      by simp
    from responseValidatorFunc_error [OF this] h w'
    show "\<exists>cf. responseValidatorFunc E rtr options c = Inr cf \<and> aborted cf \<and>
                         Writer cf =
                           run_writer_ops (eh (restoredContext c) (Error e) 500) (GinWriter w')"
      by (simp add: Abort_def Writer_run_ops StatusInternalServerError_def)
  qed
  from w' k v i n d u
  show "\<exists>w' r. Writer (restoredContext c) = GinWriter w' \<and> rw_writes w' = rw_writes w0 \<and>
                classifyResponseError options err = Inr r \<and>
                ValidateResponseFromContext E c rtr options = Inr (r, restoredContext c) \<and>
                (r = None) =
                  (\<exists>me h. errors_As_MultiError err = Some me \<and>
                          customMultiErrorHandler options = Some h \<and> h me = None) \<and>
                (r = None \<longrightarrow>
                   responseValidatorFunc E rtr options c = Inr (restoredContext c) \<and>
                   sink_writes (Writer (restoredContext c)) = rw_writes w0) \<and>
                (\<forall>e. r = Some e \<and> customErrorHandler options = None \<longrightarrow>
                   responseValidatorFunc E rtr options c =
                     Inr (AbortWithStatusJSON E 500 [(''error'', Error e)] (restoredContext c)) \<and>
                   sink_writes (Writer (AbortWithStatusJSON E 500 [(''error'', Error e)]
                                          (restoredContext c))) =
                     rw_writes w0 @ [json_Marshal E [(''error'', Error e)]]) \<and>
                (\<forall>e eh. r = Some e \<and> customErrorHandler options = Some eh \<longrightarrow>
                   (\<exists>cf. responseValidatorFunc E rtr options c = Inr cf \<and> aborted cf \<and>
                         Writer cf =
                           run_writer_ops (eh (restoredContext c) (Error e) 500) (GinWriter w')))"
    by blast
qed

theorem captured_response_all_or_nothing_witness:
  "(\<exists>cf. responseValidatorFunc demo_env demo_router None
            (demo_context [OpWrite ''id='', OpWrite ''7'']) = Inr cf \<and>
         sink_writes (Writer cf) = [''id=7''])
   \<and> (\<exists>cf. responseValidatorFunc demo_env demo_router None
            (demo_context [OpWrite ''id='', OpWrite ''x'']) = Inr cf \<and>
         sink_writes (Writer cf) =
           [''{error:error in openapi3filter.ResponseError: response body does not match schema;}''])"
proof -
  let ?good = "demo_context [OpWrite ''id='', OpWrite ''7'']"
  let ?bad = "demo_context [OpWrite ''id='', OpWrite ''x'']"
  let ?e = "ErrorString ''error in openapi3filter.ResponseError: response body does not match schema''"
  have a: "demo_router (Request ?good) = Inr (''getResource'', [])"
    by (simp add: demo_simps)
  have b: "Writer ?good = GinWriter demo_writer"
    by (simp add: demo_simps)
  have c: "engineVerdict demo_env ?good ''getResource'' [] None = None"
    by (simp add: demo_simps)
  have a': "demo_router (Request ?bad) = Inr (''getResource'', [])"
    by (simp add: demo_simps)
  have b': "Writer ?bad = GinWriter demo_writer"
    by (simp add: demo_simps)
  have c': "engineVerdict demo_env ?bad ''getResource'' [] None = Some demo_schema_error"
    by (simp add: demo_simps)
  have k: "classifyResponseError None demo_schema_error = Inr (Some ?e)"
    by (simp add: classifyResponseError_def index0_def demo_schema_error_def newline_def)
  have n: "customErrorHandler None = None"
    by (simp add: customErrorHandler_def)
  have cb: "capturedBody ?good = ''id=7''"
    by (simp add: demo_simps)
  have w: "rw_writes demo_writer = []"
    by (simp add: demo_writer_def)
  have j: "json_Marshal demo_env [(''error'', Error ?e)] =
      ''{error:error in openapi3filter.ResponseError: response body does not match schema;}''"
    by (simp add: demo_env_def demo_json_def)
  from captured_response_all_or_nothing [where rtr = demo_router and E = demo_env and options = None,
      OF a b] c
  have 1: "\<exists>cf. responseValidatorFunc demo_env demo_router None ?good = Inr cf \<and>
         sink_writes (Writer cf) = [''id=7'']"
    unfolding cb w by auto
  from captured_response_all_or_nothing [where rtr = demo_router and E = demo_env and options = None,
      OF a' b'] c' k n
  have 2: "\<exists>cf. responseValidatorFunc demo_env demo_router None ?bad = Inr cf \<and>
         sink_writes (Writer cf) =
           [''{error:error in openapi3filter.ResponseError: response body does not match schema;}'']"
    unfolding w j [symmetric] by auto
  from 1 2 show ?thesis by simp
qed

section \<open>The failure response\<close>

text \<open>
  C4, as stated, fails: not every response-validation failure is answered with 500.
  Here the engine rejects the response with an aggregate error and the configured
  \<open>MultiErrorHandler\<close> returns nil, so \<open>ValidateResponseFromContext\<close> returns nil and the
  middleware does nothing: the chain is not aborted, the status is the handler's 200,
  and nothing is written.
\<close>

theorem failure_without_response_counterexample:
  "engineVerdict demo_env
       (demo_context [OpWriteHeader 200, OpHeaderSet ''Content-Type'' ''application/json'',
                      OpWrite ''many''])
       ''getResource'' [] (Some lenient_options)
     = Some (ResponseError ''response body does not match schema'' (Some demo_aggregate))
   \<and> responseValidatorFunc demo_env demo_router (Some lenient_options)
        (demo_context [OpWriteHeader 200, OpHeaderSet ''Content-Type'' ''application/json'',
                       OpWrite ''many'']) =
       Inr \<lparr>Request = \<lparr>Method = ''GET'', URL = ''/resource''\<rparr>,
            Writer = GinWriter \<lparr>rw_status = 200,
                                rw_header = [(''Content-Type'', ''application/json'')],
                                rw_writes = [], rw_write_err = None\<rparr>,
            aborted = False, handlers = []\<rparr>"
  by (simp add: responseValidatorFunc_def ValidateResponseFromContext_def classifyResponseError_def
      getMultiErrorHandlerFromOptions_def header_Set_def demo_simps)

text \<open>
  C4, amended. Whenever \<open>ValidateResponseFromContext\<close> returns an error, the middleware
  answers with status 500. With an \<open>ErrorHandler\<close> configured, the handler is called with
  the context, the text of the error and 500, and the chain is aborted afterwards
  whatever the handler did. Otherwise the middleware calls \<open>AbortWithStatusJSON\<close> with 500
  and the object whose one field \<open>error\<close> is the text of the error: the chain is aborted,
  the status is 500, and when the writer is the real one the encoded object is written
  to it. An error is returned for every routing failure and for every response the
  engine rejects, except when the engine's error is an aggregate and the configured
  \<open>MultiErrorHandler\<close> returns nil for it: then, and only then, the middleware returns
  the restored context as it is, with no abort and no answer of its own.
\<close>

theorem failure_response:
  "StatusInternalServerError = 500
   \<and> (ValidateResponseFromContext E c rtr options = Inr (Some err, c') \<longrightarrow>
        responseValidatorFunc E rtr options c =
           Inr (case customErrorHandler options of
                  Some eh \<Rightarrow> Abort (run_ops (eh c' (Error err) 500) c')
                | None \<Rightarrow> AbortWithStatusJSON E 500 [(''error'', Error err)] c')
        \<and> (\<exists>cf. responseValidatorFunc E rtr options c = Inr cf \<and> aborted cf)
        \<and> (customErrorHandler options = None \<longrightarrow>
            (\<exists>cf. responseValidatorFunc E rtr options c = Inr cf \<and> aborted cf \<and>
                  Status (Writer cf) = 500 \<and>
                  (\<forall>w. Writer c' = GinWriter w \<longrightarrow>
                       Writer cf = GinWriter (w\<lparr>rw_status := 500,
                          rw_writes := rw_writes w @ [json_Marshal E [(''error'', Error err)]]\<rparr>)))))
   \<and> (\<forall>rerr. rtr (Request c) = Inl rerr \<longrightarrow>
        (\<exists>e. ValidateResponseFromContext E c rtr options = Inr (Some e, c)))
   \<and> (\<forall>rt pp e0. rtr (Request c) = Inr (rt, pp) \<and> engineVerdict E c rt pp options = Some e0 \<longrightarrow>
        (\<exists>r. ValidateResponseFromContext E c rtr options = Inr (r, restoredContext c) \<and>
             (r = None) =
               (\<exists>me h. errors_As_MultiError e0 = Some me \<and>
                       customMultiErrorHandler options = Some h \<and> h me = None) \<and>
             (r = None \<longrightarrow> responseValidatorFunc E rtr options c = Inr (restoredContext c))))"
proof (intro conjI impI allI)
  show "StatusInternalServerError = 500" by (simp add: StatusInternalServerError_def)
next
  assume v: "ValidateResponseFromContext E c rtr options = Inr (Some err, c')"
  show r: "responseValidatorFunc E rtr options c =
           Inr (case customErrorHandler options of
                  Some eh \<Rightarrow> Abort (run_ops (eh c' (Error err) 500) c')
                | None \<Rightarrow> AbortWithStatusJSON E 500 [(''error'', Error err)] c')"
    using responseValidatorFunc_error [OF v]
    by (simp add: StatusInternalServerError_def split: option.splits)
  have a: "aborted (case customErrorHandler options of
                  Some eh \<Rightarrow> Abort (run_ops (eh c' (Error err) 500) c')
                | None \<Rightarrow> AbortWithStatusJSON E 500 [(''error'', Error err)] c')"
    by (simp add: AbortWithStatusJSON_facts Abort_def split: option.splits)
  with r show "\<exists>cf. responseValidatorFunc E rtr options c = Inr cf \<and> aborted cf"
    by simp
next
  assume v: "ValidateResponseFromContext E c rtr options = Inr (Some err, c')"
    and n: "customErrorHandler options = None"
  from responseValidatorFunc_error [OF v] n
  show "\<exists>cf. responseValidatorFunc E rtr options c = Inr cf \<and> aborted cf \<and>
                  Status (Writer cf) = 500 \<and>
                  (\<forall>w. Writer c' = GinWriter w \<longrightarrow>
                       Writer cf = GinWriter (w\<lparr>rw_status := 500,
                          rw_writes := rw_writes w @ [json_Marshal E [(''error'', Error err)]]\<rparr>))"
    by (simp add: AbortWithStatusJSON_facts StatusInternalServerError_def)
next
  fix rerr
  assume "rtr (Request c) = Inl rerr"
  then show "\<exists>e. ValidateResponseFromContext E c rtr options = Inr (Some e, c)"
    using ValidateResponseFromContext_no_route [where rtr = rtr and c = c and err = rerr] by blast
next
  fix rt pp e0
  assume h: "rtr (Request c) = Inr (rt, pp) \<and> engineVerdict E c rt pp options = Some e0"
  from reject_classified [where rtr = rtr and c = c and rt = rt and pp = pp and E = E
      and options = options and err = e0] h
  obtain r where
    k: "classifyResponseError options e0 = Inr r" and
    v: "ValidateResponseFromContext E c rtr options = Inr (r, restoredContext c)"
    by blast
  have i: "(r = None) =
               (\<exists>me h. errors_As_MultiError e0 = Some me \<and>
                       customMultiErrorHandler options = Some h \<and> h me = None)"
    using k by (rule classifyResponseError_None_iff)
  have n: "r = None \<longrightarrow> responseValidatorFunc E rtr options c = Inr (restoredContext c)"
    using v by (simp add: responseValidatorFunc_ok)
  from v i n
  show "\<exists>r. ValidateResponseFromContext E c rtr options = Inr (r, restoredContext c) \<and>
             (r = None) =
               (\<exists>me h. errors_As_MultiError e0 = Some me \<and>
                       customMultiErrorHandler options = Some h \<and> h me = None) \<and>
             (r = None \<longrightarrow> responseValidatorFunc E rtr options c = Inr (restoredContext c))"
    by blast
qed

theorem failure_response_witness:
  "responseValidatorFunc demo_env demo_router None (demo_context [OpWriteHeader 200, OpWrite ''id=x'']) =
     Inr \<lparr>Request = \<lparr>Method = ''GET'', URL = ''/resource''\<rparr>,
          Writer = GinWriter \<lparr>rw_status = 500, rw_header = [],
            rw_writes = [''{error:error in openapi3filter.ResponseError: response body does not match schema;}''],
            rw_write_err = None\<rparr>,
          aborted = True, handlers = []\<rparr>
   \<and> responseValidatorFunc demo_env demo_router (Some demo_options)
         (demo_context [OpWriteHeader 200, OpWrite ''id=x'']) =
     Inr \<lparr>Request = \<lparr>Method = ''GET'', URL = ''/resource''\<rparr>,
          Writer = GinWriter \<lparr>rw_status = 500, rw_header = [],
            rw_writes = [''test: error in openapi3filter.ResponseError: response body does not match schema''],
            rw_write_err = None\<rparr>,
          aborted = True, handlers = []\<rparr>"
proof -
  let ?c = "demo_context [OpWriteHeader 200, OpWrite ''id=x'']"
  let ?e = "ErrorString ''error in openapi3filter.ResponseError: response body does not match schema''"
  have 1: "ValidateResponseFromContext demo_env ?c demo_router None = Inr (Some ?e, demo_context [])"
    by (simp add: ValidateResponseFromContext_def classifyResponseError_def index0_def demo_simps)
  have 2: "ValidateResponseFromContext demo_env ?c demo_router (Some demo_options) = Inr (Some ?e, demo_context [])"
    by (simp add: ValidateResponseFromContext_def classifyResponseError_def index0_def demo_simps)
  from 1 failure_response [where E = demo_env and c = ?c and rtr = demo_router and options = None
      and err = ?e and c' = "demo_context []"]
  have a: "responseValidatorFunc demo_env demo_router None ?c =
     Inr \<lparr>Request = \<lparr>Method = ''GET'', URL = ''/resource''\<rparr>,
          Writer = GinWriter \<lparr>rw_status = 500, rw_header = [],
            rw_writes = [''{error:error in openapi3filter.ResponseError: response body does not match schema;}''],
            rw_write_err = None\<rparr>,
          aborted = True, handlers = []\<rparr>"
    by (simp add: AbortWithStatusJSON_def demo_simps)
  from 2 failure_response [where E = demo_env and c = ?c and rtr = demo_router
      and options = "Some demo_options" and err = ?e and c' = "demo_context []"]
  have b: "responseValidatorFunc demo_env demo_router (Some demo_options) ?c =
     Inr \<lparr>Request = \<lparr>Method = ''GET'', URL = ''/resource''\<rparr>,
          Writer = GinWriter \<lparr>rw_status = 500, rw_header = [],
            rw_writes = [''test: error in openapi3filter.ResponseError: response body does not match schema''],
            rw_write_err = None\<rparr>,
          aborted = True, handlers = []\<rparr>"
    by (simp add: demo_simps)
  from a b show ?thesis by simp
qed

lemma run_writer_ops_GinWriter: "\<exists>w'. run_writer_ops ops (GinWriter w) = GinWriter w'"
proof (induction ops arbitrary: w)
  case Nil
  show ?case by simp
next
  case (Cons x xs)
  show ?case
  proof (cases x)
    case (OpWriteHeader code)
    with Cons [of "w\<lparr>rw_status := code\<rparr>"] show ?thesis by simp
  next
    case (OpHeaderSet k v)
    with Cons [of "w\<lparr>rw_header := header_Set k v (rw_header w)\<rparr>"] show ?thesis by simp
  next
    case (OpWrite b)
    with Cons [of "w\<lparr>rw_writes := rw_writes w @ [b]\<rparr>"] show ?thesis by simp
  next
    case OpAbort
    with Cons [of w] show ?thesis by simp
  qed
qed

lemma Writer_Next_GinWriter:
  "Writer c = GinWriter w \<Longrightarrow> \<exists>w'. Writer (Next c) = GinWriter w'"
  using run_writer_ops_GinWriter [of "handlers c" w]
  by (simp add: Next_def Writer_run_ops)

lemma error_response_intercepted:
  assumes "Writer c' = responseInterceptor W buf"
  shows "\<exists>W' buf'. Writer (case customErrorHandler options of
            Some eh \<Rightarrow> Abort (run_ops (eh c' m code) c')
          | None \<Rightarrow> AbortWithStatusJSON E code obj c') = responseInterceptor W' buf'"
  using assms
  by (simp add: AbortWithStatusJSON_facts Abort_def Writer_run_ops run_writer_ops_interceptor
      split: option.splits)

lemma accept_writer_intercepted:
  assumes "rtr (Request c) = Inr (rt, pp)" and "engineVerdict E c rt pp options = None"
    and "Writer c = GinWriter w0"
  shows "\<exists>cf W buf. responseValidatorFunc E rtr options c = Inr cf \<and>
                   Writer cf = responseInterceptor W buf"
proof -
  from accept_result [where rtr = rtr, OF assms] obtain w' where
    v: "ValidateResponseFromContext E c rtr options =
            Inr (map_option (WrapError ''error writing response body: '') (rw_write_err w0),
                 (afterHandlers c)\<lparr>Writer := responseInterceptor
                    (GinWriter (w'\<lparr>rw_writes := rw_writes w0 @ [capturedBody c]\<rparr>))
                    (capturedBody c)\<rparr>)"
    by blast
  let ?c3 = "(afterHandlers c)\<lparr>Writer := responseInterceptor
                    (GinWriter (w'\<lparr>rw_writes := rw_writes w0 @ [capturedBody c]\<rparr>))
                    (capturedBody c)\<rparr>"
  show ?thesis
  proof (cases "rw_write_err w0")
    case None
    with v have "responseValidatorFunc E rtr options c = Inr ?c3"
      by (simp add: responseValidatorFunc_ok)
    then show ?thesis by simp
  next
    case (Some e)
    with v have "ValidateResponseFromContext E c rtr options =
        Inr (Some (WrapError ''error writing response body: '' e), ?c3)"
      by simp
    from responseValidatorFunc_error [OF this]
      error_response_intercepted [where c' = ?c3
        and W = "GinWriter (w'\<lparr>rw_writes := rw_writes w0 @ [capturedBody c]\<rparr>)"
        and buf = "capturedBody c" and options = options]
    show ?thesis by simp
  qed
qed

lemma request_accept_result:
  assumes "getRequestValidationInput E (Request c) rtr options = Inr vi"
    and "ValidateRequest E (getRequestContext c options) vi = None"
  shows "requestValidatorFunc E rtr options c = Inr (Next c)"
  using assms by (simp add: requestValidatorFunc_def ValidateRequestFromContext_def)

lemma validators_differ:
  assumes "rtr (Request c) = Inr (rt, pp)" and "Writer c = GinWriter w0"
    and "engineVerdict E c rt pp options = None"
    and "getRequestValidationInput E (Request c) rtr options = Inr vi"
    and "ValidateRequest E (getRequestContext c options) vi = None"
  shows "requestValidatorFunc E rtr options c \<noteq> responseValidatorFunc E rtr options c"
proof
  assume eq: "requestValidatorFunc E rtr options c = responseValidatorFunc E rtr options c"
  from accept_writer_intercepted [where rtr = rtr, OF assms(1) assms(3) assms(2)]
  obtain cf W buf where cf: "responseValidatorFunc E rtr options c = Inr cf"
    "Writer cf = responseInterceptor W buf"
    by blast
  from request_accept_result [OF assms(4) assms(5)] eq cf
  have "Writer (Next c) = responseInterceptor W buf" by simp
  moreover from Writer_Next_GinWriter [OF assms(2)] obtain w' where "Writer (Next c) = GinWriter w'"
    by blast
  ultimately show False by simp
qed

section \<open>The constructor from a YAML file\<close>

text \<open>
  C3. When the file is read and the document parsed, \<open>OapiResponseValidatorFromYamlFile\<close>
  returns what \<open>OapiRequestValidator\<close> makes of the document: the same lines logged, the
  same panic if the router cannot be built, and otherwise the request middleware with a
  nil error. That middleware is not the one \<open>OapiResponseValidator\<close> makes: whenever the
  router is built and some request on the real writer is routed and accepted by both
  engines, the two middlewares differ on it (the request middleware lets the handlers
  write to the real writer, the response middleware leaves the interceptor in place).
\<close>

theorem yaml_constructor_returns_request_validator:
  assumes "ReadFile E path = Inr data" and "LoadFromData E data = Inr swagger"
  shows "OapiResponseValidatorFromYamlFile E path =
           (fst (OapiRequestValidator E swagger),
            case snd (OapiRequestValidator E swagger) of
              Inl p \<Rightarrow> Inl p
            | Inr h \<Rightarrow> Inr (Inr h))
       \<and> (NewRouter E swagger = Inr rtr \<and> rtr (Request c) = Inr (rt, pp) \<and>
          Writer c = GinWriter w0 \<and> engineVerdict E c rt pp None = None \<and>
          getRequestValidationInput E (Request c) rtr None = Inr vi \<and>
          ValidateRequest E (getRequestContext c None) vi = None \<longrightarrow>
            snd (OapiRequestValidator E swagger) = Inr (requestValidatorFunc E rtr None) \<and>
            snd (OapiResponseValidator E swagger) = Inr (responseValidatorFunc E rtr None) \<and>
            requestValidatorFunc E rtr None c \<noteq> responseValidatorFunc E rtr None c \<and>
            snd (OapiRequestValidator E swagger) \<noteq> snd (OapiResponseValidator E swagger))"
proof (intro conjI impI)
  show "OapiResponseValidatorFromYamlFile E path =
           (fst (OapiRequestValidator E swagger),
            case snd (OapiRequestValidator E swagger) of
              Inl p \<Rightarrow> Inl p
            | Inr h \<Rightarrow> Inr (Inr h))"
    using assms
    by (simp add: OapiResponseValidatorFromYamlFile_def split: prod.splits sum.splits)
next
  assume h: "NewRouter E swagger = Inr rtr \<and> rtr (Request c) = Inr (rt, pp) \<and>
          Writer c = GinWriter w0 \<and> engineVerdict E c rt pp None = None \<and>
          getRequestValidationInput E (Request c) rtr None = Inr vi \<and>
          ValidateRequest E (getRequestContext c None) vi = None"
  then show a: "snd (OapiRequestValidator E swagger) = Inr (requestValidatorFunc E rtr None)"
    by (simp add: OapiRequestValidator_def snd_OapiRequestValidatorWithOptions)
  from h show b: "snd (OapiResponseValidator E swagger) = Inr (responseValidatorFunc E rtr None)"
    by (simp add: OapiResponseValidator_def snd_OapiResponseValidatorWithOptions)
  from h show d: "requestValidatorFunc E rtr None c \<noteq> responseValidatorFunc E rtr None c"
    using validators_differ [where rtr = rtr and c = c and E = E and options = None] by blast
  from a b d show "snd (OapiRequestValidator E swagger) \<noteq> snd (OapiResponseValidator E swagger)"
    by auto
qed

theorem yaml_constructor_returns_request_validator_witness:
  "OapiResponseValidatorFromYamlFile demo_env ''api.yaml'' =
     ([], Inr (Inr (requestValidatorFunc demo_env demo_router None)))
   \<and> snd (OapiRequestValidator demo_env demo_swagger) \<noteq> snd (OapiResponseValidator demo_env demo_swagger)"
proof -
  let ?c = "demo_context [OpWrite ''id=7'']"
  let ?vi = "\<lparr>rvi_Request = \<lparr>Method = ''GET'', URL = ''/resource''\<rparr>, rvi_PathParams = [],
             rvi_Route = ''GET'', rvi_Options = None, rvi_ParamDecoder = None\<rparr>"
  have a: "ReadFile demo_env ''api.yaml'' = Inr ''openapi''"
    by (simp add: demo_env_def)
  have b: "LoadFromData demo_env ''openapi'' = Inr demo_swagger"
    by (simp add: demo_env_def)
  have n: "NewRouter demo_env demo_swagger = Inr demo_router"
    by (simp add: demo_env_def)
  have r: "demo_router (Request ?c) = Inr (''getResource'', [])"
    by (simp add: demo_simps)
  have w: "Writer ?c = GinWriter demo_writer"
    by (simp add: demo_simps)
  have v: "engineVerdict demo_env ?c ''getResource'' [] None = None"
    by (simp add: demo_simps)
  have g: "getRequestValidationInput demo_env (Request ?c) demo_router None = Inr ?vi"
    by (simp add: demo_simps)
  have q: "ValidateRequest demo_env (getRequestContext ?c None) ?vi = None"
    by (simp add: demo_simps)
  have l: "fst (OapiRequestValidator demo_env demo_swagger) = []"
    by (simp add: OapiRequestValidator_def OapiRequestValidatorWithOptions_def demo_swagger_def
        demo_env_def)
  note t = yaml_constructor_returns_request_validator [OF a b, where rtr = demo_router and c = ?c
      and rt = "''getResource''" and pp = "[]" and ?w0.0 = demo_writer and vi = ?vi]
  from t have 1: "OapiResponseValidatorFromYamlFile demo_env ''api.yaml'' =
           (fst (OapiRequestValidator demo_env demo_swagger),
            case snd (OapiRequestValidator demo_env demo_swagger) of
              Inl p \<Rightarrow> Inl p
            | Inr h \<Rightarrow> Inr (Inr h))"
    by (rule conjunct1)
  from t n r w v g q
  have 2: "snd (OapiRequestValidator demo_env demo_swagger) = Inr (requestValidatorFunc demo_env demo_router None)"
    by blast
  from t n r w v g q
  have 3: "snd (OapiRequestValidator demo_env demo_swagger) \<noteq> snd (OapiResponseValidator demo_env demo_swagger)"
    by blast
  from 1 show ?thesis unfolding l 2 using 2 3 by simp
qed

end
